theory Spec2Isabelle
  imports Main "HOL-Library.Word" "HOL-Library.List_Lexorder" "HOL-Library.Char_ord"
    "HOL-Library.Product_Lexorder" "HOL-Library.Monad_Syntax"
begin

unbundle bit_operations_syntax

section \<open>Values, errors and the call context\<close>

text \<open>
  The extension is C code running inside a PostgreSQL backend. A \<open>text\<close> datum and a C
  string are both byte strings (\<open>string\<close>); reading a byte buffer as a C string stops at
  the first NUL byte. A \<open>pg_uuid_t\<close> is \<open>unsigned char data[16]\<close>. A nullable argument or
  column is an \<open>option\<close>, \<open>None\<close> being SQL NULL.
\<close>

type_synonym pg_uuid_t = "8 word list"

definition UUID_LEN :: nat where
  "UUID_LEN = 16"

definition valid_uuid :: "pg_uuid_t \<Rightarrow> bool" where
  "valid_uuid uuid = (length uuid = UUID_LEN)"

definition cstring :: "string \<Rightarrow> string" where
  "cstring bs = takeWhile (\<lambda>c. c \<noteq> CHR 0x00) bs"

definition text_to_cstring :: "string \<Rightarrow> string" where
  "text_to_cstring t = cstring t"

definition cstring_to_text :: "string \<Rightarrow> string" where
  "cstring_to_text s = cstring s"

definition strchr :: "string \<Rightarrow> char \<Rightarrow> nat option" where
  "strchr s c = (if c \<in> set s then Some (length (takeWhile (\<lambda>x. x \<noteq> c) s)) else None)"

text \<open>
  \<open>ereport(ERROR, (errcode(c), errmsg(m)))\<close> leaves the function with an error; it is the
  \<open>Inl\<close> of every result. \<open>elog(ERROR, m)\<close> is the same with the internal-error code.
\<close>

datatype sqlerrcode =
    ERRCODE_FEATURE_NOT_SUPPORTED
  | ERRCODE_DATATYPE_MISMATCH
  | ERRCODE_INVALID_PARAMETER_VALUE
  | ERRCODE_INVALID_TEXT_REPRESENTATION
  | ERRCODE_WRONG_OBJECT_TYPE
  | ERRCODE_INTERNAL_ERROR

datatype pg_error = ereport sqlerrcode string

definition elog :: "string \<Rightarrow> pg_error" where
  "elog msg = ereport ERRCODE_INTERNAL_ERROR msg"



datatype TypeFuncClass = TYPEFUNC_SCALAR | TYPEFUNC_COMPOSITE | TYPEFUNC_RECORD | TYPEFUNC_OTHER

text \<open>
  What the functions read of \<open>fcinfo\<close> besides their arguments: whether \<open>resultinfo\<close> is a
  \<open>ReturnSetInfo\<close>, whether \<open>allowedModes\<close> has \<open>SFRM_Materialize\<close>, and the class
  \<open>get_call_result_type\<close> reports for the declared return type.
\<close>

record fcinfo =
  rsinfo_is_ReturnSetInfo :: bool
  allowedModes_SFRM_Materialize :: bool
  get_call_result_type :: TypeFuncClass

section \<open>The byte-to-text transform and the UUID text form\<close>

definition b64_alphabet :: string where
  "b64_alphabet = ''ABCDEFGHIJKLMNOPQRSTUVWXYZabcdefghijklmnopqrstuvwxyz0123456789+/''"

definition b64_char :: "nat \<Rightarrow> char" where
  "b64_char n = b64_alphabet ! n"

definition b64_value :: "char \<Rightarrow> nat option" where
  "b64_value c = map_of (zip b64_alphabet [0..<64]) c"

fun b64_encode :: "string \<Rightarrow> string" where
  \<comment> \<open>Modelled from the spec: \<open>encode\<close>, called through \<open>DirectFunctionCall1\<close>, is the
      database's transform and not code of this repository; section 6 fixes it as base64
      with the standard alphabet, \<open>=\<close> padding and no newline wrapping.\<close>
  "b64_encode [] = []"
| "b64_encode [a] =
     [b64_char (of_char a div 4), b64_char (of_char a mod 4 * 16), CHR ''='', CHR ''='']"
| "b64_encode [a, b] =
     [b64_char (of_char a div 4), b64_char (of_char a mod 4 * 16 + of_char b div 16),
      b64_char (of_char b mod 16 * 4), CHR ''='']"
| "b64_encode (a # b # c # rest) =
     [b64_char (of_char a div 4), b64_char (of_char a mod 4 * 16 + of_char b div 16),
      b64_char (of_char b mod 16 * 4 + of_char c div 64), b64_char (of_char c mod 64)]
     @ b64_encode rest"

fun b64_decode :: "string \<Rightarrow> string option" where
  \<comment> \<open>Modelled from the spec: \<open>decode\<close> is the reverse transform of \<open>b64_encode\<close>; text
      that is not groups of four alphabet characters, padded with \<open>=\<close> only in the last
      group, "cannot be reverse-transformed".\<close>
  "b64_decode [] = Some []"
| "b64_decode (c0 # c1 # c2 # c3 # rest) =
     (case (b64_value c0, b64_value c1) of
        (Some v0, Some v1) \<Rightarrow>
          if rest = [] \<and> c2 = CHR ''='' \<and> c3 = CHR ''=''
          then Some [char_of (v0 * 4 + v1 div 16)]
          else (case b64_value c2 of
                  None \<Rightarrow> None
                | Some v2 \<Rightarrow>
                    if rest = [] \<and> c3 = CHR ''=''
                    then Some [char_of (v0 * 4 + v1 div 16), char_of (v1 mod 16 * 16 + v2 div 4)]
                    else (case b64_value c3 of
                            None \<Rightarrow> None
                          | Some v3 \<Rightarrow>
                              (case b64_decode rest of
                                 None \<Rightarrow> None
                               | Some bs \<Rightarrow>
                                   Some (char_of (v0 * 4 + v1 div 16)
                                         # char_of (v1 mod 16 * 16 + v2 div 4)
                                         # char_of (v2 mod 4 * 64 + v3) # bs))))
      | _ \<Rightarrow> None)"
| "b64_decode _ = None"

definition pg_encode :: "string \<Rightarrow> string" where
  "pg_encode data = b64_encode data"

definition pg_decode :: "string \<Rightarrow> pg_error + string" where
  "pg_decode txt =
     (case b64_decode txt of
        None \<Rightarrow> Inl (ereport ERRCODE_INVALID_PARAMETER_VALUE ''invalid base64 sequence'')
      | Some bs \<Rightarrow> Inr bs)"

definition hex_chars :: string where
  "hex_chars = ''0123456789abcdef''"

fun uuid_out_loop :: "nat \<Rightarrow> 8 word list \<Rightarrow> string" where
  \<comment> \<open>Modelled from the spec: the canonical UUID string of section 6, 8-4-4-4-12 lower-case
      hexadecimal digits, as the database's \<open>uuid_out\<close> prints the sixteen bytes.\<close>
  "uuid_out_loop i [] = []"
| "uuid_out_loop i (b # bs) =
     (if i = 4 \<or> i = 6 \<or> i = 8 \<or> i = 10 then ''-'' else [])
     @ [hex_chars ! unat (drop_bit 4 b), hex_chars ! unat (b AND 0x0F)]
     @ uuid_out_loop (Suc i) bs"

definition hexpair :: "8 word \<Rightarrow> string" where
  \<comment> \<open>The two digits \<open>uuid_out_loop\<close> prints for one byte.\<close>
  "hexpair b = [hex_chars ! unat (drop_bit 4 b), hex_chars ! unat (b AND 0x0F)]"

definition uuid_out :: "pg_uuid_t \<Rightarrow> string" where
  "uuid_out uuid = uuid_out_loop 0 uuid"

definition hex_digit_val :: "char \<Rightarrow> nat option" where
  "hex_digit_val c =
     (let n = (of_char c :: nat)
      in if 48 \<le> n \<and> n \<le> 57 then Some (n - 48)
         else if 97 \<le> n \<and> n \<le> 102 then Some (n - 87)
         else if 65 \<le> n \<and> n \<le> 70 then Some (n - 55)
         else None)"

fun string_to_uuid_loop :: "nat \<Rightarrow> nat \<Rightarrow> string \<Rightarrow> (8 word list \<times> string) option" where
  \<comment> \<open>Modelled from the spec: "syntactically valid UUID" is what the database's \<open>uuid_in\<close>
      accepts: sixteen pairs of hexadecimal digits, a hyphen allowed after each group of four
      digits, optionally in braces. The first argument counts the bytes still to read, the
      second is the index of the byte being read.\<close>
  "string_to_uuid_loop 0 i src = Some ([], src)"
| "string_to_uuid_loop (Suc k) i (c0 # c1 # src) =
     (case (hex_digit_val c0, hex_digit_val c1) of
        (Some h, Some l) \<Rightarrow>
          (case string_to_uuid_loop k (Suc i)
                  (if (case src of [] \<Rightarrow> False | c # _ \<Rightarrow> c = CHR ''-'')
                      \<and> i mod 2 = 1 \<and> i < UUID_LEN - 1
                   then tl src else src) of
             None \<Rightarrow> None
           | Some (bs, rest) \<Rightarrow> Some (word_of_nat (16 * h + l) # bs, rest))
      | _ \<Rightarrow> None)"
| "string_to_uuid_loop (Suc k) i _ = None"

definition string_to_uuid :: "string \<Rightarrow> pg_uuid_t option" where
  "string_to_uuid source =
     (let braces = (case source of [] \<Rightarrow> False | c # _ \<Rightarrow> c = CHR ''{'');
          src = (if braces then tl source else source)
      in case string_to_uuid_loop UUID_LEN 0 src of
           None \<Rightarrow> None
         | Some (uuid, rest) \<Rightarrow>
             if braces then (if rest = ''}'' then Some uuid else None)
             else if rest = [] then Some uuid else None)"

definition uuid_in :: "string \<Rightarrow> pg_error + pg_uuid_t" where
  "uuid_in s =
     (case string_to_uuid s of
        None \<Rightarrow> Inl (ereport ERRCODE_INVALID_TEXT_REPRESENTATION
                      (''invalid input syntax for type uuid: '' @ s))
      | Some uuid \<Rightarrow> Inr uuid)"

section \<open>Global ID codec\<close>

text \<open>
  \<open>fraiseql_encode_global_id\<close>: NULL in, NULL out; otherwise the base64 text of
  \<open>typename:uuid\<close>. No branch of the function inspects the type name.
\<close>

definition fraiseql_encode_global_id ::
  "string option \<Rightarrow> pg_uuid_t option \<Rightarrow> pg_error + string option" where
  "fraiseql_encode_global_id arg0 arg1 =
     (case (arg0, arg1) of
        (Some typename_text, Some local_id) \<Rightarrow>
          (let typename = text_to_cstring typename_text;
               uuid_str = cstring (uuid_out local_id);
               buf = typename @ '':'' @ uuid_str;
               encoded = cstring (pg_encode (cstring_to_text buf))
           in Inr (Some (cstring_to_text encoded)))
      | _ \<Rightarrow> Inr None)"

text \<open>
  \<open>fraiseql_decode_global_id\<close>: NULL in, NULL out; otherwise base64-decode, read the
  result as a C string, split at the first colon, check that the call expects a row, and
  parse the part after the colon as a UUID.
\<close>

definition fraiseql_decode_global_id ::
  "fcinfo \<Rightarrow> string option \<Rightarrow> pg_error + (string \<times> pg_uuid_t) option" where
  "fraiseql_decode_global_id fc arg0 =
     (case arg0 of
        None \<Rightarrow> Inr None
      | Some global_id_text \<Rightarrow>
          (let global_id = text_to_cstring global_id_text
           in case pg_decode (cstring_to_text global_id) of
                Inl e \<Rightarrow> Inl e
              | Inr bytes \<Rightarrow>
                  (let decoded = cstring bytes
                   in case strchr decoded (CHR '':'') of
                        None \<Rightarrow>
                          Inl (ereport ERRCODE_INVALID_PARAMETER_VALUE
                                 ''invalid global ID format: missing colon separator'')
                      | Some colon_pos \<Rightarrow>
                          (let typename = take colon_pos decoded;
                               uuid_str = drop (colon_pos + 1) decoded
                           in if get_call_result_type fc \<noteq> TYPEFUNC_COMPOSITE
                              then Inl (elog ''return type must be a row type'')
                              else (case uuid_in uuid_str of
                                      Inl e \<Rightarrow> Inl e
                                    | Inr local_id \<Rightarrow> Inr (Some (typename, local_id)))))))"



subsection \<open>Example values\<close>

definition example_uuid :: pg_uuid_t where
  \<comment> \<open>\<open>123e4567-e89b-12d3-a456-426614174000\<close>, the example of section 6.\<close>
  "example_uuid = [0x12, 0x3e, 0x45, 0x67, 0xe8, 0x9b, 0x12, 0xd3,
                   0xa4, 0x56, 0x42, 0x66, 0x14, 0x17, 0x40, 0x00]"

definition row_call :: fcinfo where
  "row_call = \<lparr>rsinfo_is_ReturnSetInfo = True, allowedModes_SFRM_Materialize = True,
               get_call_result_type = TYPEFUNC_COMPOSITE\<rparr>"

section \<open>Formatted output\<close>

text \<open>
  \<open>appendStringInfo(buf, fmt, ...)\<close> with \<open>%s\<close> directives only: each \<open>%s\<close> is replaced
  by the next argument; a NULL pointer prints as \<open>(null)\<close>.
\<close>

fun format_s :: "string \<Rightarrow> string option list \<Rightarrow> string" where
  "format_s (c # d # fmt) args =
     (if c = CHR ''%'' \<and> d = CHR ''s''
      then (case args of
              [] \<Rightarrow> format_s fmt []
            | a # as \<Rightarrow> (case a of None \<Rightarrow> ''(null)'' | Some str \<Rightarrow> str) @ format_s fmt as)
      else c # format_s (d # fmt) args)"
| "format_s fmt args = fmt"

section \<open>The storage engine as the extension sees it\<close>

text \<open>
  A datum of the types that occur: \<open>uuid\<close>, \<open>text\<close>, \<open>jsonb\<close> and \<open>timestamptz\<close> (the last
  two as their text form, they are only passed through). A tuple is the list of its
  column values, \<open>None\<close> for NULL.
\<close>

datatype datum = UuidD pg_uuid_t | TextD string | JsonbD string | TimestamptzD string

type_synonym tuple = "datum option list"

fun datum_out :: "datum \<Rightarrow> string" where
  "datum_out (UuidD u) = uuid_out u"
| "datum_out (TextD s) = s"
| "datum_out (JsonbD s) = s"
| "datum_out (TimestamptzD s) = s"

definition SPI_getbinval :: "tuple \<Rightarrow> nat \<Rightarrow> datum option" where
  "SPI_getbinval t fnumber = (if 1 \<le> fnumber \<and> fnumber \<le> length t then t ! (fnumber - 1) else None)"

definition SPI_getvalue :: "tuple \<Rightarrow> nat \<Rightarrow> string option" where
  "SPI_getvalue t fnumber = map_option datum_out (SPI_getbinval t fnumber)"

datatype spi_code =
    SPI_OK_CONNECT | SPI_OK_UTILITY | SPI_OK_SELECT
  | SPI_ERROR_CONNECT | SPI_ERROR_ARGUMENT | SPI_ERROR_OPUNKNOWN

text \<open>A row of \<open>core.tb_entity_registry\<close>, with the columns the registry query reads.\<close>

record entity_registry_row =
  entity_name :: string
  graphql_type :: string
  pk_column :: string
  v_table :: "string option"
  tv_table :: "string option"
  source_table :: string
  soft_delete_column :: "string option"

text \<open>A backing relation: its column names and its rows (a value, or NULL, per column).\<close>

record pg_table =
  tbl_columns :: "string list"
  tbl_rows :: "(string \<Rightarrow> datum option) list"

text \<open>A row of the unified view \<open>core.v_nodes\<close>: the common row shape.\<close>

record node_row =
  nr_id :: "datum option"
  nr_typename :: "datum option"
  nr_entity_name :: "datum option"
  nr_source_table :: "datum option"
  nr_data :: "datum option"
  nr_created_at :: "datum option"
  nr_updated_at :: "datum option"

text \<open>
  One \<open>SELECT\<close> of the view definition:
  \<open>SELECT pk as id, 'typename' as __typename, 'entity' as entity_name, 'source' as
  source_table, data, created_at, updated_at FROM tbl WHERE col IS NULL\<close>.
\<close>

record select_branch =
  sb_pk_column :: string
  sb_typename :: string
  sb_entity_name :: string
  sb_source_table :: string
  sb_from :: string
  sb_delete_col :: string

text \<open>
  The database: the answer of \<open>SPI_connect\<close>, the registry, the backing relations by
  name, the definition of \<open>core.v_nodes\<close> (\<open>None\<close> when there is no such view; the empty
  list is the view \<open>... WHERE FALSE\<close>), and how the engine answers a \<open>CREATE INDEX\<close>
  statement: it returns a code, or it raises an error (\<open>Inl\<close>), which is how PostgreSQL
  reports a command that fails.
\<close>

record database =
  SPI_connect :: spi_code
  tb_entity_registry :: "entity_registry_row list"
  relations :: "(string \<times> pg_table) list"
  v_nodes :: "select_branch list option"
  create_index_result :: "string \<Rightarrow> pg_error + spi_code"

definition eval_branch :: "(string \<times> pg_table) list \<Rightarrow> select_branch \<Rightarrow> node_row list" where
  \<comment> \<open>Modelled from the spec: the rows one \<open>SELECT\<close> of the view denotes (section 4.3): the
      rows of the backing relation whose soft-delete column is NULL, projected.\<close>
  "eval_branch rels b =
     (case map_of rels (sb_from b) of
        None \<Rightarrow> []
      | Some t \<Rightarrow>
          map (\<lambda>row. \<lparr>nr_id = row (sb_pk_column b),
                      nr_typename = Some (TextD (sb_typename b)),
                      nr_entity_name = Some (TextD (sb_entity_name b)),
                      nr_source_table = Some (TextD (sb_source_table b)),
                      nr_data = row ''data'',
                      nr_created_at = row ''created_at'',
                      nr_updated_at = row ''updated_at''\<rparr>)
              (filter (\<lambda>row. row (sb_delete_col b) = None) (tbl_rows t)))"

definition v_nodes_rows :: "database \<Rightarrow> node_row list option" where
  \<comment> \<open>\<open>UNION ALL\<close> of the branches, in the order of the definition.\<close>
  "v_nodes_rows db = map_option (\<lambda>bs. concat (map (eval_branch (relations db)) bs)) (v_nodes db)"

definition branch_ok :: "(string \<times> pg_table) list \<Rightarrow> select_branch \<Rightarrow> bool" where
  \<comment> \<open>The relation and the columns a branch names exist.\<close>
  "branch_ok rels b =
     (case map_of rels (sb_from b) of
        None \<Rightarrow> False
      | Some t \<Rightarrow>
          list_all (\<lambda>c. c \<in> set (tbl_columns t))
            [sb_pk_column b, ''data'', ''created_at'', ''updated_at'', sb_delete_col b])"

definition order_key :: "datum option \<Rightarrow> nat \<times> string \<times> 8 word list \<times> string" where
  \<comment> \<open>\<open>ORDER BY ... ASC\<close>: text by its bytes, a UUID by its sixteen bytes, NULL last.\<close>
  "order_key d =
     (case d of
        Some (TextD s) \<Rightarrow> (0, s, [], [])
      | Some (UuidD u) \<Rightarrow> (1, [], u, [])
      | Some (JsonbD s) \<Rightarrow> (2, [], [], s)
      | Some (TimestamptzD s) \<Rightarrow> (3, [], [], s)
      | None \<Rightarrow> (4, [], [], []))"

subsection \<open>Reading the statements the extension sends\<close>

fun strip_prefix :: "string \<Rightarrow> string \<Rightarrow> string option" where
  "strip_prefix [] s = Some s"
| "strip_prefix (p # ps) [] = None"
| "strip_prefix (p # ps) (c # cs) = (if p = c then strip_prefix ps cs else None)"

definition is_ident_char :: "char \<Rightarrow> bool" where
  "is_ident_char c =
     (let n = (of_char c :: nat)
      in (48 \<le> n \<and> n \<le> 57) \<or> (65 \<le> n \<and> n \<le> 90) \<or> (97 \<le> n \<and> n \<le> 122)
         \<or> c = CHR ''_'' \<or> c = CHR ''.'')"

definition ident :: "string \<Rightarrow> (string \<times> string) option" where
  "ident s =
     (if takeWhile is_ident_char s = [] then None
      else Some (takeWhile is_ident_char s, dropWhile is_ident_char s))"

definition quoted :: "string \<Rightarrow> (string \<times> string) option" where
  "quoted s =
     (case s of
        [] \<Rightarrow> None
      | q # r \<Rightarrow>
          if q \<noteq> CHR 0x27 then None
          else (case dropWhile (\<lambda>c. c \<noteq> CHR 0x27) r of
                  [] \<Rightarrow> None
                | q' # r' \<Rightarrow> Some (takeWhile (\<lambda>c. c \<noteq> CHR 0x27) r, r')))"

function parse_uuid_items :: "string \<Rightarrow> (pg_uuid_t list \<times> string) option" where
  "parse_uuid_items s =
     (case quoted s of
        None \<Rightarrow> None
      | Some (lit, r) \<Rightarrow>
          (case string_to_uuid lit of
             None \<Rightarrow> None
           | Some u \<Rightarrow>
               (case r of
                  [] \<Rightarrow> None
                | c # r' \<Rightarrow>
                    if c = CHR '','' then
                      (case parse_uuid_items r' of
                         None \<Rightarrow> None
                       | Some (us, rest) \<Rightarrow> Some (u # us, rest))
                    else if c = CHR '']'' then Some ([u], r')
                    else None)))"
  by pat_completeness auto
termination
proof (relation "measure length")
  show "wf (measure length)" by simp
next
  fix s :: string and x2 lit r u c r'
  assume q: "quoted s = Some x2" and x2: "(lit, r) = x2" and r: "r = c # r'"
  from q x2 obtain q0 s0 where s: "s = q0 # s0"
    and d: "dropWhile (\<lambda>c. c \<noteq> CHR 0x27) s0 = CHR 0x27 # r \<or> (\<exists>q'. dropWhile (\<lambda>c. c \<noteq> CHR 0x27) s0 = q' # r)"
    by (auto simp: quoted_def split: list.splits if_splits)
  from d obtain q' where "dropWhile (\<lambda>c. c \<noteq> CHR 0x27) s0 = q' # r" by blast
  then have "length (q' # r) \<le> length s0"
    by (metis length_dropWhile_le)
  then show "(r', s) \<in> measure length" using s r by simp
qed

declare parse_uuid_items.simps [simp del]

definition parse_uuid_array :: "string \<Rightarrow> (pg_uuid_t list \<times> string) option" where
  \<comment> \<open>\<open>ARRAY[]::uuid[]\<close> or \<open>ARRAY['u1','u2',...]::uuid[]\<close>; anything else is a syntax error.\<close>
  "parse_uuid_array s =
     (case strip_prefix ''ARRAY['' s of
        None \<Rightarrow> None
      | Some r \<Rightarrow>
          (case (case strip_prefix '']'' r of
                   Some r' \<Rightarrow> Some ([], r')
                 | None \<Rightarrow> parse_uuid_items r) of
             None \<Rightarrow> None
           | Some (us, r') \<Rightarrow>
               (case strip_prefix ''::uuid[]'' r' of
                  None \<Rightarrow> None
                | Some rest \<Rightarrow> Some (us, rest))))"

definition parse_branch :: "string \<Rightarrow> (select_branch \<times> string) option" where
  "parse_branch s =
     do {
       s1 \<leftarrow> strip_prefix ''SELECT '' s;
       (pk, s2) \<leftarrow> ident s1;
       s3 \<leftarrow> strip_prefix '' as id, '' s2;
       (ty, s4) \<leftarrow> quoted s3;
       s5 \<leftarrow> strip_prefix '' as __typename, '' s4;
       (en, s6) \<leftarrow> quoted s5;
       s7 \<leftarrow> strip_prefix '' as entity_name, '' s6;
       (src, s8) \<leftarrow> quoted s7;
       s9 \<leftarrow> strip_prefix '' as source_table, data, created_at, updated_at FROM '' s8;
       (tbl, s10) \<leftarrow> ident s9;
       s11 \<leftarrow> strip_prefix '' WHERE '' s10;
       (col, s12) \<leftarrow> ident s11;
       rest \<leftarrow> strip_prefix '' IS NULL'' s12;
       Some (\<lparr>sb_pk_column = pk, sb_typename = ty, sb_entity_name = en,
              sb_source_table = src, sb_from = tbl, sb_delete_col = col\<rparr>, rest)
     }"

fun parse_union :: "nat \<Rightarrow> string \<Rightarrow> select_branch list option" where
  \<comment> \<open>Branches separated by \<open>UNION ALL\<close>; the first argument bounds the number of branches
      (the length of the text is enough).\<close>
  "parse_union 0 s = None"
| "parse_union (Suc n) s =
     (case parse_branch s of
        None \<Rightarrow> None
      | Some (b, rest) \<Rightarrow>
          if rest = [] then Some [b]
          else (case strip_prefix '' UNION ALL '' rest of
                  None \<Rightarrow> None
                | Some rest' \<Rightarrow>
                    (case parse_union n rest' of None \<Rightarrow> None | Some bs \<Rightarrow> Some (b # bs))))"

text \<open>
  The output column names of a \<open>SELECT\<close>: the alias of an item when it has one, else the
  column it names; a literal or a cast without an alias has no name. The view takes the
  names of its first \<open>SELECT\<close>.
\<close>

definition select_item :: "string \<Rightarrow> (string \<times> string) option" where
  "select_item s =
     do {
       (column, r) \<leftarrow>
         (case quoted s of
            Some (lit, r) \<Rightarrow> Some (None, r)
          | None \<Rightarrow>
              do {
                (x, r) \<leftarrow> ident s;
                (case strip_prefix ''::'' r of
                   Some r' \<Rightarrow> do { (ty, r'') \<leftarrow> ident r'; Some (None, r'') }
                 | None \<Rightarrow> Some (Some x, r))
              });
       (case strip_prefix '' as '' r of
          Some r' \<Rightarrow> ident r'
        | None \<Rightarrow> (case column of Some x \<Rightarrow> Some (x, r) | None \<Rightarrow> None))
     }"

fun select_items :: "nat \<Rightarrow> string \<Rightarrow> string list option" where
  "select_items 0 s = None"
| "select_items (Suc n) s =
     do {
       (name, r) \<leftarrow> select_item s;
       (case strip_prefix '', '' r of
          Some r' \<Rightarrow> do { names \<leftarrow> select_items n r'; Some (name # names) }
        | None \<Rightarrow> Some [name])
     }"

definition view_columns :: "string \<Rightarrow> string list option" where
  \<comment> \<open>The column names a \<open>CREATE OR REPLACE VIEW core.v_nodes AS SELECT ...\<close> statement
      gives the view.\<close>
  "view_columns src =
     do {
       body \<leftarrow> strip_prefix ''CREATE OR REPLACE VIEW core.v_nodes AS '' src;
       items \<leftarrow> strip_prefix ''SELECT '' body;
       select_items (length items) items
     }"

subsection \<open>Executing them\<close>

definition registry_query :: "database \<Rightarrow> tuple list" where
  \<comment> \<open>The rows of
      \<open>SELECT entity_name, graphql_type, pk_column, COALESCE(tv_table, v_table) as
      data_table, source_table, COALESCE(soft_delete_column, 'deleted_at') as delete_col
      FROM core.tb_entity_registry WHERE v_table IS NOT NULL ORDER BY entity_name\<close>.\<close>
  "registry_query db =
     map (\<lambda>r. [Some (TextD (entity_name r)), Some (TextD (graphql_type r)),
                Some (TextD (pk_column r)),
                map_option TextD (case tv_table r of Some t \<Rightarrow> Some t | None \<Rightarrow> v_table r),
                Some (TextD (source_table r)),
                Some (TextD (case soft_delete_column r of
                               Some c \<Rightarrow> c | None \<Rightarrow> ''deleted_at''))])
       (sort_key entity_name (filter (\<lambda>r. v_table r \<noteq> None) (tb_entity_registry db)))"

definition exec_batch_select :: "database \<Rightarrow> string \<Rightarrow> tuple list option" where
  \<comment> \<open>The rest of the batch query after \<open>... WHERE id = ANY(\<close>: the array, then
      \<open>) ORDER BY __typename, id\<close>. The rows of the view whose id is a member of the array,
      ordered, with the four selected columns.\<close>
  "exec_batch_select db s =
     (case parse_uuid_array s of
        None \<Rightarrow> None
      | Some (ids, rest) \<Rightarrow>
          if rest \<noteq> '') ORDER BY __typename, id'' then None
          else (case v_nodes_rows db of
                  None \<Rightarrow> None
                | Some rows \<Rightarrow>
                    Some (map (\<lambda>r. [nr_typename r, nr_data r, nr_entity_name r, nr_id r])
                           (sort_key (\<lambda>r. (order_key (nr_typename r), order_key (nr_id r)))
                              (filter (\<lambda>r. nr_id r \<in> (\<lambda>u. Some (UuidD u)) ` set ids) rows)))))"

definition exec_create_view :: "database \<Rightarrow> string \<Rightarrow> database option" where
  \<comment> \<open>The rest of \<open>CREATE OR REPLACE VIEW core.v_nodes AS ...\<close>: the typed empty select, or
      branches over relations and columns that exist.\<close>
  "exec_create_view db body =
     (if body = ''SELECT NULL::UUID as id, NULL::TEXT as __typename, NULL::TEXT as entity_name, NULL::TEXT as source_table, NULL::JSONB as data, NULL::TIMESTAMPTZ as created_at, NULL::TIMESTAMPTZ as updated_at WHERE FALSE''
      then Some (db\<lparr>v_nodes := Some []\<rparr>)
      else (case parse_union (length body) body of
              None \<Rightarrow> None
            | Some bs \<Rightarrow>
                if list_all (branch_ok (relations db)) bs then Some (db\<lparr>v_nodes := Some bs\<rparr>)
                else None))"

definition SPI_execute ::
  "database \<Rightarrow> string \<Rightarrow> pg_error + (spi_code \<times> tuple list \<times> database)" where
  \<comment> \<open>Modelled from the spec: the storage engine's query executor (sections 1 and 2; it is
      consumed, not part of this repository). A call either returns (\<open>Inr\<close>: the code, the
      rows of \<open>SPI_tuptable\<close> and the database after the statement) or raises an error inside
      the engine (\<open>Inl\<close>), which then leaves the calling function unless that function
      catches it. The queries and the view statement that the engine cannot run are reported
      with an error code, which is what the source tests for; \<open>DROP INDEX IF EXISTS\<close> of an
      index that does not exist is a no-op; a \<open>CREATE INDEX\<close> statement is answered as the
      database says, with a code or with a raised error.\<close>
  "SPI_execute db src =
     (if src = ''SELECT entity_name, graphql_type, pk_column, COALESCE(tv_table, v_table) as data_table, source_table, COALESCE(soft_delete_column, 'deleted_at') as delete_col FROM core.tb_entity_registry WHERE v_table IS NOT NULL ORDER BY entity_name''
      then Inr (SPI_OK_SELECT, registry_query db, db)
      else (case strip_prefix ''SELECT __typename, data, entity_name, id FROM core.v_nodes WHERE id = ANY('' src of
              Some rest \<Rightarrow>
                (case exec_batch_select db rest of
                   None \<Rightarrow> Inr (SPI_ERROR_ARGUMENT, [], db)
                 | Some tuples \<Rightarrow> Inr (SPI_OK_SELECT, tuples, db))
            | None \<Rightarrow>
                (case strip_prefix ''CREATE OR REPLACE VIEW core.v_nodes AS '' src of
                   Some body \<Rightarrow>
                     (case exec_create_view db body of
                        None \<Rightarrow> Inr (SPI_ERROR_ARGUMENT, [], db)
                      | Some db' \<Rightarrow> Inr (SPI_OK_UTILITY, [], db'))
                 | None \<Rightarrow>
                     if strip_prefix ''DROP INDEX IF EXISTS '' src \<noteq> None
                     then Inr (SPI_OK_UTILITY, [], db)
                     else if strip_prefix ''CREATE INDEX '' src \<noteq> None
                     then (case create_index_result db src of
                             Inl e \<Rightarrow> Inl e
                           | Inr rc \<Rightarrow> Inr (rc, [], db))
                     else Inr (SPI_ERROR_ARGUMENT, [], db))))"

definition SPI_execute_with_args ::
  "database \<Rightarrow> string \<Rightarrow> datum option list \<Rightarrow> nat \<Rightarrow> spi_code \<times> tuple list" where
  \<comment> \<open>Modelled from the spec: the point lookup of section 4.4 with its bound parameter;
      \<open>tcount\<close> limits the rows returned when it is not 0.\<close>
  "SPI_execute_with_args db src values tcount =
     (if src = ''SELECT __typename, data, entity_name FROM core.v_nodes WHERE id = $1 LIMIT 1''
      then (case (v_nodes_rows db, values) of
              (Some rows, [arg]) \<Rightarrow>
                (SPI_OK_SELECT,
                 map (\<lambda>r. [nr_typename r, nr_data r, nr_entity_name r])
                   ((if tcount = 0 then id else take tcount)
                      (take 1 (filter (\<lambda>r. arg \<noteq> None \<and> nr_id r = arg) rows))))
            | _ \<Rightarrow> (SPI_ERROR_ARGUMENT, []))
      else (SPI_ERROR_ARGUMENT, []))"

section \<open>Node resolution\<close>

text \<open>
  \<open>fraiseql_resolve_node_fast\<close>: NULL in, NULL out. Otherwise the checks of the call
  context, then the point lookup; the result is the content of the tuple store: no tuple
  when no row matched, else one tuple \<open>(__typename, data, entity_name, source_used)\<close>.
\<close>

definition fraiseql_resolve_node_fast ::
  "fcinfo \<Rightarrow> database \<Rightarrow> pg_uuid_t option \<Rightarrow> pg_error + tuple list option" where
  "fraiseql_resolve_node_fast fc db arg0 =
     (case arg0 of
        None \<Rightarrow> Inr None
      | Some node_id \<Rightarrow>
          if \<not> rsinfo_is_ReturnSetInfo fc
          then Inl (ereport ERRCODE_FEATURE_NOT_SUPPORTED
                      ''set-valued function called in context that cannot accept a set'')
          else if \<not> allowedModes_SFRM_Materialize fc
          then Inl (ereport ERRCODE_FEATURE_NOT_SUPPORTED
                      ''materialize mode required, but it is not allowed in this context'')
          else if get_call_result_type fc \<noteq> TYPEFUNC_COMPOSITE
          then Inl (elog ''return type must be a row type'')
          else if SPI_connect db \<noteq> SPI_OK_CONNECT
          then Inl (elog ''SPI_connect failed'')
          else (case SPI_execute_with_args db
                       ''SELECT __typename, data, entity_name FROM core.v_nodes WHERE id = $1 LIMIT 1''
                       [Some (UuidD node_id)] 1 of
                  (rc, SPI_tuptable) \<Rightarrow>
                    if rc \<noteq> SPI_OK_SELECT
                    then Inl (elog ''SPI_execute_with_args failed'')
                    else if length SPI_tuptable > 0
                    then (let spi_tuple = SPI_tuptable ! 0;
                              result_values = [SPI_getbinval spi_tuple 1,
                                               SPI_getbinval spi_tuple 2,
                                               SPI_getbinval spi_tuple 3,
                                               Some (TextD ''v_nodes'')]
                          in Inr (Some [result_values]))
                    else Inr (Some [])))"

text \<open>
  The argument of the batch resolver: the element type of the array and its elements, a
  NULL element being \<open>None\<close>.
\<close>

record ArrayType =
  ARR_ELEMTYPE :: nat
  ARR_elems :: "pg_uuid_t option list"

definition UUIDOID :: nat where
  "UUIDOID = 2950"

text \<open>
  The loop that prints the array elements: a NULL element is skipped, and a comma is
  printed before an element whenever its index \<open>i\<close> is positive.
\<close>

fun ids_buf_loop :: "nat \<Rightarrow> pg_uuid_t option list \<Rightarrow> string" where
  "ids_buf_loop i [] = []"
| "ids_buf_loop i (e # elems) =
     (case e of
        None \<Rightarrow> ids_buf_loop (Suc i) elems
      | Some u \<Rightarrow>
          (if i > 0 then '','' else [])
          @ format_s ([CHR 0x27] @ ''%s'' @ [CHR 0x27]) [Some (cstring (uuid_out u))]
          @ ids_buf_loop (Suc i) elems)"

definition fraiseql_resolve_nodes_batch ::
  "fcinfo \<Rightarrow> database \<Rightarrow> ArrayType option \<Rightarrow> pg_error + tuple list option" where
  "fraiseql_resolve_nodes_batch fc db arg0 =
     (case arg0 of
        None \<Rightarrow> Inr None
      | Some node_ids_array \<Rightarrow>
          if ARR_ELEMTYPE node_ids_array \<noteq> UUIDOID
          then Inl (ereport ERRCODE_DATATYPE_MISMATCH ''array must contain UUID elements'')
          else if \<not> rsinfo_is_ReturnSetInfo fc
          then Inl (ereport ERRCODE_FEATURE_NOT_SUPPORTED
                      ''set-valued function called in context that cannot accept a set'')
          else if \<not> allowedModes_SFRM_Materialize fc
          then Inl (ereport ERRCODE_FEATURE_NOT_SUPPORTED
                      ''materialize mode required, but it is not allowed in this context'')
          else if get_call_result_type fc \<noteq> TYPEFUNC_COMPOSITE
          then Inl (elog ''return type must be a row type'')
          else if SPI_connect db \<noteq> SPI_OK_CONNECT
          then Inl (elog ''SPI_connect failed'')
          else (let ids_buf = ''ARRAY['' @ ids_buf_loop 0 (ARR_elems node_ids_array)
                                @ '']::uuid[]'';
                    query_buf = format_s ''SELECT __typename, data, entity_name, id FROM core.v_nodes WHERE id = ANY(%s) ORDER BY __typename, id''
                                  [Some ids_buf]
                in case SPI_execute db query_buf of
                     Inl e \<Rightarrow> Inl e
                   | Inr (rc, SPI_tuptable, db') \<Rightarrow>
                       if rc \<noteq> SPI_OK_SELECT
                       then Inl (elog (format_s ''batch query failed: %s'' [Some query_buf]))
                       else Inr (Some (map (\<lambda>spi_tuple.
                                              [SPI_getbinval spi_tuple 1,
                                               SPI_getbinval spi_tuple 2,
                                               SPI_getbinval spi_tuple 3,
                                               Some (TextD ''v_nodes_batch'')])
                                         SPI_tuptable))))"

section \<open>View synthesis\<close>

text \<open>The loop over the registry rows that appends one \<open>SELECT\<close> per entity.\<close>

fun view_sql_loop :: "nat \<Rightarrow> tuple list \<Rightarrow> string" where
  "view_sql_loop i [] = []"
| "view_sql_loop i (tuple # vals) =
     (let entity_name' = SPI_getvalue tuple 1;
          graphql_type' = SPI_getvalue tuple 2;
          pk_column' = SPI_getvalue tuple 3;
          data_table' = SPI_getvalue tuple 4;
          source_table' = SPI_getvalue tuple 5;
          delete_col' = SPI_getvalue tuple 6
      in (if i > 0 then '' UNION ALL '' else [])
         @ format_s ''SELECT %s as id, '%s' as __typename, '%s' as entity_name, '%s' as source_table, data, created_at, updated_at FROM %s WHERE %s IS NULL''
             [pk_column', graphql_type', entity_name', source_table', data_table', delete_col']
         @ view_sql_loop (Suc i) vals)"

text \<open>
  The statement the rebuild builds in \<open>view_sql\<close> from the rows of the registry query: the
  typed empty select when there is none, else one \<open>SELECT\<close> per row.
\<close>

definition view_sql_of :: "tuple list \<Rightarrow> string" where
  "view_sql_of SPI_tuptable =
     (let entity_count = length SPI_tuptable
      in if entity_count = 0
         then ''CREATE OR REPLACE VIEW core.v_nodes AS SELECT NULL::UUID as id, NULL::TEXT as __typename, NULL::TEXT as entity_name, NULL::TEXT as source_table, NULL::JSONB as data, NULL::TIMESTAMPTZ as created_at, NULL::TIMESTAMPTZ as updated_at WHERE FALSE''
         else ''CREATE OR REPLACE VIEW core.v_nodes AS '' @ view_sql_loop 0 SPI_tuptable)"

definition SPI_execute_unchecked :: "database \<Rightarrow> string \<Rightarrow> pg_error + database" where
  \<comment> \<open>A call of \<open>SPI_execute\<close> whose return value the source does not read: a returned
      code is dropped. The call is not inside a \<open>PG_TRY\<close> block (the source has none), so an
      error raised by the statement is not caught here.\<close>
  "SPI_execute_unchecked db src =
     (case SPI_execute db src of
        Inl e \<Rightarrow> Inl e
      | Inr (rc, tuptable, db') \<Rightarrow> Inr db')"

text \<open>
  \<open>fraiseql_refresh_nodes_view_fast\<close> returns \<open>true\<close> and the database after the rebuild,
  or an error (and then no new database: the statement is rolled back). An error is one
  the function raises itself, or one raised inside a statement it executes: nothing in the
  function catches it.
\<close>

definition fraiseql_refresh_nodes_view_fast :: "database \<Rightarrow> pg_error + (bool \<times> database)" where
  "fraiseql_refresh_nodes_view_fast db =
     (if SPI_connect db \<noteq> SPI_OK_CONNECT then Inl (elog ''SPI_connect failed'')
      else (case SPI_execute db
                   ''SELECT entity_name, graphql_type, pk_column, COALESCE(tv_table, v_table) as data_table, source_table, COALESCE(soft_delete_column, 'deleted_at') as delete_col FROM core.tb_entity_registry WHERE v_table IS NOT NULL ORDER BY entity_name'' of
              Inl e \<Rightarrow> Inl e
            | Inr (rc, SPI_tuptable, db1) \<Rightarrow>
                if rc \<noteq> SPI_OK_SELECT then Inl (elog ''failed to query entity registry'')
                else (let entity_count = length SPI_tuptable;
                          view_sql = view_sql_of SPI_tuptable
                      in case SPI_execute db1 view_sql of
                           Inl e \<Rightarrow> Inl e
                         | Inr (rc', tuptable', db2) \<Rightarrow>
                             if rc' \<noteq> SPI_OK_UTILITY
                             then Inl (elog ''failed to refresh v_nodes view'')
                             else
                  (case SPI_execute_unchecked db2 ''DROP INDEX IF EXISTS core.idx_v_nodes_id'' of
                     Inl e \<Rightarrow> Inl e
                   | Inr db3 \<Rightarrow>
                  (case SPI_execute_unchecked db3 ''DROP INDEX IF EXISTS core.idx_v_nodes_typename'' of
                     Inl e \<Rightarrow> Inl e
                   | Inr db4 \<Rightarrow>
                  (case SPI_execute_unchecked db4 ''DROP INDEX IF EXISTS core.idx_v_nodes_entity_name'' of
                     Inl e \<Rightarrow> Inl e
                   | Inr db5 \<Rightarrow>
                       if entity_count > 0
                       then
                  (case SPI_execute_unchecked db5 ''CREATE INDEX idx_v_nodes_id ON core.v_nodes(id)'' of
                     Inl e \<Rightarrow> Inl e
                   | Inr db6 \<Rightarrow>
                  (case SPI_execute_unchecked db6 ''CREATE INDEX idx_v_nodes_typename ON core.v_nodes(__typename)'' of
                     Inl e \<Rightarrow> Inl e
                   | Inr db7 \<Rightarrow>
                  (case SPI_execute_unchecked db7 ''CREATE INDEX idx_v_nodes_entity_name ON core.v_nodes(entity_name)'' of
                     Inl e \<Rightarrow> Inl e
                   | Inr db8 \<Rightarrow> Inr (True, db8))))
                       else Inr (True, db5)))))))"

text \<open>The text the loop prints for one element, and for the elements after the first.\<close>

definition uuid_item :: "pg_uuid_t \<Rightarrow> string" where
  "uuid_item u = CHR 0x27 # uuid_out u @ [CHR 0x27]"

fun uuid_items_tail :: "pg_uuid_t list \<Rightarrow> string" where
  "uuid_items_tail [] = []"
| "uuid_items_tail (v # us) = CHR '','' # uuid_item v @ uuid_items_tail us"

text \<open>
  The tuple the batch loop stores for a row of the view: \<open>result_values[0..2]\<close> are the
  first three columns of the query result, \<open>result_values[3]\<close> is the constant
  \<open>v_nodes_batch\<close>.
\<close>

definition batch_record :: "node_row \<Rightarrow> tuple" where
  "batch_record r = [nr_typename r, nr_data r, nr_entity_name r, Some (TextD ''v_nodes_batch'')]"

section \<open>What the view synthesis is to produce\<close>

text \<open>
  The descriptors the rebuild reads: the registry rows that have a node view table, in
  the order of their entity names.
\<close>

definition node_entities :: "database \<Rightarrow> entity_registry_row list" where
  "node_entities db = sort_key entity_name (filter (\<lambda>r. v_table r \<noteq> None) (tb_entity_registry db))"

text \<open>
  The unified view in the words of the spec (section 4.3): for each descriptor, the rows of
  its backing collection whose soft-delete field is NULL, projected to the common row
  shape, all of them in one sequence. The backing collection is the table view if one is
  configured, else the view table; the soft-delete field is the configured one, or
  \<open>deleted_at\<close> when none is configured.
\<close>

definition unified_rows_spec :: "database \<Rightarrow> node_row list" where
  "unified_rows_spec db =
     concat (map (\<lambda>r.
        case map_of (relations db)
               (case tv_table r of Some t \<Rightarrow> t | None \<Rightarrow> (case v_table r of Some t \<Rightarrow> t | None \<Rightarrow> [])) of
          None \<Rightarrow> []
        | Some tbl \<Rightarrow>
            map (\<lambda>row. \<lparr>nr_id = row (pk_column r),
                        nr_typename = Some (TextD (graphql_type r)),
                        nr_entity_name = Some (TextD (entity_name r)),
                        nr_source_table = Some (TextD (source_table r)),
                        nr_data = row ''data'',
                        nr_created_at = row ''created_at'',
                        nr_updated_at = row ''updated_at''\<rparr>)
              (filter (\<lambda>row. row (case soft_delete_column r of
                                      Some c \<Rightarrow> c | None \<Rightarrow> ''deleted_at'') = None)
                 (tbl_rows tbl)))
       (node_entities db))"

text \<open>
  The \<open>SELECT\<close> the loop prints for a descriptor, as a branch of the view definition, and
  the text of a branch.
\<close>

definition branch_of :: "entity_registry_row \<Rightarrow> select_branch" where
  "branch_of r =
     \<lparr>sb_pk_column = pk_column r, sb_typename = graphql_type r,
      sb_entity_name = entity_name r, sb_source_table = source_table r,
      sb_from = (case tv_table r of Some t \<Rightarrow> t | None \<Rightarrow> (case v_table r of Some t \<Rightarrow> t | None \<Rightarrow> [])),
      sb_delete_col = (case soft_delete_column r of Some c \<Rightarrow> c | None \<Rightarrow> ''deleted_at'')\<rparr>"

definition branch_text :: "select_branch \<Rightarrow> string" where
  "branch_text b =
     ''SELECT '' @ sb_pk_column b @ '' as id, '' @ [CHR 0x27] @ sb_typename b @ [CHR 0x27]
     @ '' as __typename, '' @ [CHR 0x27] @ sb_entity_name b @ [CHR 0x27]
     @ '' as entity_name, '' @ [CHR 0x27] @ sb_source_table b @ [CHR 0x27]
     @ '' as source_table, data, created_at, updated_at FROM '' @ sb_from b
     @ '' WHERE '' @ sb_delete_col b @ '' IS NULL''"

fun union_tail :: "select_branch list \<Rightarrow> string" where
  "union_tail [] = []"
| "union_tail (b # bs) = '' UNION ALL '' @ branch_text b @ union_tail bs"

text \<open>
  A descriptor whose names can stand in the statement as they are: the primary key, the
  backing collection and the soft-delete column are identifiers, and the type name, the
  entity name and the source table have no quote. The source copies the registry's text
  into the statement unescaped, so nothing is claimed for other descriptors.
\<close>

definition is_identifier :: "string \<Rightarrow> bool" where
  "is_identifier s = (s \<noteq> [] \<and> list_all is_ident_char s)"

definition safe_branch :: "select_branch \<Rightarrow> bool" where
  "safe_branch b =
     (is_identifier (sb_pk_column b) \<and> is_identifier (sb_from b)
      \<and> is_identifier (sb_delete_col b)
      \<and> CHR 0x27 \<notin> set (sb_typename b) \<and> CHR 0x27 \<notin> set (sb_entity_name b)
      \<and> CHR 0x27 \<notin> set (sb_source_table b))"

text \<open>The row the registry query returns for a registry row.\<close>

definition registry_tuple :: "entity_registry_row \<Rightarrow> tuple" where
  "registry_tuple r =
     [Some (TextD (entity_name r)), Some (TextD (graphql_type r)), Some (TextD (pk_column r)),
      map_option TextD (case tv_table r of Some t \<Rightarrow> Some t | None \<Rightarrow> v_table r),
      Some (TextD (source_table r)),
      Some (TextD (case soft_delete_column r of Some c \<Rightarrow> c | None \<Rightarrow> ''deleted_at''))]"

section \<open>Example data\<close>

text \<open>
  The example of section 8: entity Alpha with the row A1, entity Beta with the row B1 and
  the soft-deleted row B2. Beta has no soft-delete column configured and comes first in
  the registry table.
\<close>

definition uuid_A1 :: pg_uuid_t where
  "uuid_A1 = [0, 0, 0, 0, 0, 0, 0, 0, 0, 0, 0, 0, 0, 0, 0, 0xA1]"

definition uuid_B1 :: pg_uuid_t where
  "uuid_B1 = [0, 0, 0, 0, 0, 0, 0, 0, 0, 0, 0, 0, 0, 0, 0, 0xB1]"

definition uuid_B2 :: pg_uuid_t where
  "uuid_B2 = [0, 0, 0, 0, 0, 0, 0, 0, 0, 0, 0, 0, 0, 0, 0, 0xB2]"

definition uuid_unknown :: pg_uuid_t where
  "uuid_unknown = [0, 0, 0, 0, 0, 0, 0, 0, 0, 0, 0, 0, 0, 0, 0, 0xFF]"

definition heap_row :: "(string \<times> datum) list \<Rightarrow> string \<Rightarrow> datum option" where
  \<comment> \<open>A row given by its non-NULL columns.\<close>
  "heap_row cols = map_of cols"

definition example_registry :: "entity_registry_row list" where
  "example_registry =
     [\<lparr>entity_name = ''beta'', graphql_type = ''Beta'', pk_column = ''pk_beta'',
       v_table = Some ''public.v_beta'', tv_table = None, source_table = ''tb_beta'',
       soft_delete_column = None\<rparr>,
      \<lparr>entity_name = ''alpha'', graphql_type = ''Alpha'', pk_column = ''id'',
       v_table = Some ''v_alpha'', tv_table = Some ''tv_alpha'', source_table = ''tb_alpha'',
       soft_delete_column = Some ''removed_at''\<rparr>,
      \<lparr>entity_name = ''gamma'', graphql_type = ''Gamma'', pk_column = ''id'',
       v_table = None, tv_table = Some ''tv_gamma'', source_table = ''tb_gamma'',
       soft_delete_column = None\<rparr>]"

definition example_relations :: "(string \<times> pg_table) list" where
  "example_relations =
     [(''tv_alpha'',
       \<lparr>tbl_columns = [''id'', ''data'', ''created_at'', ''updated_at'', ''removed_at''],
        tbl_rows = [heap_row [(''id'', UuidD uuid_A1), (''data'', JsonbD ''{}''),
                              (''created_at'', TimestamptzD ''2024-01-01''),
                              (''updated_at'', TimestamptzD ''2024-01-02'')]]\<rparr>),
      (''public.v_beta'',
       \<lparr>tbl_columns = [''pk_beta'', ''data'', ''created_at'', ''updated_at'', ''deleted_at''],
        tbl_rows = [heap_row [(''pk_beta'', UuidD uuid_B2), (''data'', JsonbD ''[2]''),
                              (''created_at'', TimestamptzD ''2024-02-01''),
                              (''updated_at'', TimestamptzD ''2024-02-02''),
                              (''deleted_at'', TimestamptzD ''2024-02-03'')],
                    heap_row [(''pk_beta'', UuidD uuid_B1), (''data'', JsonbD ''[1]''),
                              (''created_at'', TimestamptzD ''2024-03-01''),
                              (''updated_at'', TimestamptzD ''2024-03-02'')]]\<rparr>)]"

definition example_db :: database where
  \<comment> \<open>No view yet. \<open>core.v_nodes\<close> is created as a view, and PostgreSQL answers
      \<open>CREATE INDEX\<close> on a view by raising an error with SQLSTATE 42809 (wrong object
      type) and the message below, the relation name in double quotes.\<close>
  "example_db =
     \<lparr>SPI_connect = SPI_OK_CONNECT, tb_entity_registry = example_registry,
      relations = example_relations, v_nodes = None,
      create_index_result =
        (\<lambda>src. Inl (ereport ERRCODE_WRONG_OBJECT_TYPE
                      (''cannot create index on relation '' @ [CHR 0x22] @ ''v_nodes''
                       @ [CHR 0x22])))\<rparr>"

text \<open>
  Two more registry snapshots over the same relations. In the first, the one descriptor
  configures no soft-delete column and its backing collection \<open>tv_alpha\<close> has no column
  \<open>deleted_at\<close>. In the second, the type name of the one descriptor has a quote.
\<close>

definition registry_no_sentinel_column :: "entity_registry_row list" where
  "registry_no_sentinel_column =
     [\<lparr>entity_name = ''alpha'', graphql_type = ''Alpha'', pk_column = ''id'',
       v_table = Some ''v_alpha'', tv_table = Some ''tv_alpha'', source_table = ''tb_alpha'',
       soft_delete_column = None\<rparr>]"

definition registry_quoted_name :: "entity_registry_row list" where
  "registry_quoted_name =
     [\<lparr>entity_name = ''alpha'', graphql_type = ''Alpha's'', pk_column = ''id'',
       v_table = Some ''v_alpha'', tv_table = Some ''tv_alpha'', source_table = ''tb_alpha'',
       soft_delete_column = Some ''removed_at''\<rparr>]"

definition example_view :: "select_branch list" where
  \<comment> \<open>The definition the rebuild installs for \<open>example_db\<close>.\<close>
  "example_view =
     [\<lparr>sb_pk_column = ''id'', sb_typename = ''Alpha'', sb_entity_name = ''alpha'',
       sb_source_table = ''tb_alpha'', sb_from = ''tv_alpha'', sb_delete_col = ''removed_at''\<rparr>,
      \<lparr>sb_pk_column = ''pk_beta'', sb_typename = ''Beta'', sb_entity_name = ''beta'',
       sb_source_table = ''tb_beta'', sb_from = ''public.v_beta'',
       sb_delete_col = ''deleted_at''\<rparr>]"

definition set_call :: fcinfo where
  \<comment> \<open>A call that accepts a materialised set of rows.\<close>
  "set_call = \<lparr>rsinfo_is_ReturnSetInfo = True, allowedModes_SFRM_Materialize = True,
               get_call_result_type = TYPEFUNC_COMPOSITE\<rparr>"

section \<open>Facts about the transform and the UUID text form\<close>

lemma sextet_join:
  fixes A B C :: nat
  assumes "A < 256" "B < 256" "C < 256"
  shows "A div 4 * 4 + (A mod 4 * 16) div 16 = A"
    and "A div 4 * 4 + (A mod 4 * 16 + B div 16) div 16 = A"
    and "(A mod 4 * 16 + B div 16) mod 16 * 16 + (B mod 16 * 4) div 4 = B"
    and "(A mod 4 * 16 + B div 16) mod 16 * 16 + (B mod 16 * 4 + C div 64) div 4 = B"
    and "(B mod 16 * 4 + C div 64) mod 4 * 64 + C mod 64 = C"
proof -
  have b: "B div 16 < 16" and c: "C div 64 < 4" using assms by linarith+
  have 1: "(A mod 4 * 16 + B div 16) div 16 = A mod 4" using b by simp
  have 2: "(A mod 4 * 16 + B div 16) mod 16 = B div 16" using b by simp
  have 3: "(B mod 16 * 4 + C div 64) div 4 = B mod 16" using c by simp
  have 4: "(B mod 16 * 4 + C div 64) mod 4 = C div 64" using c by simp
  show "A div 4 * 4 + (A mod 4 * 16) div 16 = A" by simp
  show "A div 4 * 4 + (A mod 4 * 16 + B div 16) div 16 = A" unfolding 1 by simp
  show "(A mod 4 * 16 + B div 16) mod 16 * 16 + (B mod 16 * 4) div 4 = B" unfolding 2 by simp
  show "(A mod 4 * 16 + B div 16) mod 16 * 16 + (B mod 16 * 4 + C div 64) div 4 = B"
    unfolding 2 3 by simp
  show "(B mod 16 * 4 + C div 64) mod 4 * 64 + C mod 64 = C" unfolding 4 by simp
qed

lemma b64_table: "\<forall>n \<in> set [0..<64]. b64_value (b64_char n) = Some n \<and> b64_char n \<noteq> CHR ''='' \<and> b64_char n \<noteq> CHR 0x00"
  by code_simp

lemma b64_value_char: "n < 64 \<Longrightarrow> b64_value (b64_char n) = Some n"
  using b64_table by simp

lemma b64_char_not_pad: "n < 64 \<Longrightarrow> b64_char n \<noteq> CHR ''=''"
  using b64_table by simp

lemma b64_char_not_nul: "n < 64 \<Longrightarrow> b64_char n \<noteq> CHR 0x00"
  using b64_table by simp

lemma of_char_lt_256: "(of_char c :: nat) < 256"
  by (metis char_of_char of_char_of mod_less_divisor zero_less_numeral)

lemma sextet_bounds:
  fixes A B C :: nat
  assumes "A < 256" "B < 256" "C < 256"
  shows "A div 4 < 64"
    and "A mod 4 * 16 < 64"
    and "A mod 4 * 16 + B div 16 < 64"
    and "B mod 16 * 4 < 64"
    and "B mod 16 * 4 + C div 64 < 64"
    and "C mod 64 < 64"
  using assms by linarith+

lemma b64_roundtrip: "b64_decode (b64_encode bs) = Some bs"
proof (induction bs rule: b64_encode.induct)
  case 1
  show ?case by simp
next
  case (2 a)
  note sb = sextet_bounds[OF of_char_lt_256[of a] of_char_lt_256[of a] of_char_lt_256[of a]]
  note sj = sextet_join[OF of_char_lt_256[of a] of_char_lt_256[of a] of_char_lt_256[of a]]
  define v0 v1 :: nat where "v0 = of_char a div 4" and "v1 = of_char a mod 4 * 16"
  have enc: "b64_encode [a] = [b64_char v0, b64_char v1, CHR ''='', CHR ''='']"
    by (simp add: v0_def v1_def)
  have bounds: "v0 < 64" "v1 < 64"
    unfolding v0_def v1_def by (rule sb)+
  have "v0 * 4 + v1 div 16 = of_char a"
    unfolding v0_def v1_def by (rule sj)
  then have j: "char_of (v0 * 4 + v1 div 16) = a" by simp
  show ?case unfolding enc using bounds j by (simp add: b64_value_char)
next
  case (3 a b)
  note sb = sextet_bounds[OF of_char_lt_256[of a] of_char_lt_256[of b] of_char_lt_256[of b]]
  note sj = sextet_join[OF of_char_lt_256[of a] of_char_lt_256[of b] of_char_lt_256[of b]]
  define v0 v1 v2 :: nat where "v0 = of_char a div 4"
    and "v1 = of_char a mod 4 * 16 + of_char b div 16" and "v2 = of_char b mod 16 * 4"
  have enc: "b64_encode [a, b] = [b64_char v0, b64_char v1, b64_char v2, CHR ''='']"
    by (simp add: v0_def v1_def v2_def)
  have bounds: "v0 < 64" "v1 < 64" "v2 < 64"
    unfolding v0_def v1_def v2_def by (rule sb)+
  have "v0 * 4 + v1 div 16 = of_char a" "v1 mod 16 * 16 + v2 div 4 = of_char b"
    unfolding v0_def v1_def v2_def by (rule sj)+
  then have j: "char_of (v0 * 4 + v1 div 16) = a" "char_of (v1 mod 16 * 16 + v2 div 4) = b"
    by simp_all
  show ?case unfolding enc using bounds j by (simp add: b64_value_char b64_char_not_pad)
next
  case (4 a b c rest)
  note sb = sextet_bounds[OF of_char_lt_256[of a] of_char_lt_256[of b] of_char_lt_256[of c]]
  note sj = sextet_join[OF of_char_lt_256[of a] of_char_lt_256[of b] of_char_lt_256[of c]]
  define v0 v1 v2 v3 :: nat where "v0 = of_char a div 4"
    and "v1 = of_char a mod 4 * 16 + of_char b div 16"
    and "v2 = of_char b mod 16 * 4 + of_char c div 64" and "v3 = of_char c mod 64"
  have enc: "b64_encode (a # b # c # rest)
             = b64_char v0 # b64_char v1 # b64_char v2 # b64_char v3 # b64_encode rest"
    by (simp add: v0_def v1_def v2_def v3_def)
  have bounds: "v0 < 64" "v1 < 64" "v2 < 64" "v3 < 64"
    unfolding v0_def v1_def v2_def v3_def by (rule sb)+
  have "v0 * 4 + v1 div 16 = of_char a" "v1 mod 16 * 16 + v2 div 4 = of_char b"
       "v2 mod 4 * 64 + v3 = of_char c"
    unfolding v0_def v1_def v2_def v3_def by (rule sj)+
  then have j: "char_of (v0 * 4 + v1 div 16) = a" "char_of (v1 mod 16 * 16 + v2 div 4) = b"
      "char_of (v2 mod 4 * 64 + v3) = c"
    by simp_all
  show ?case unfolding enc using bounds j "4.IH"
    by (simp add: b64_value_char b64_char_not_pad)
qed

lemma b64_encode_no_nul: "CHR 0x00 \<notin> set (b64_encode bs)"
proof (induction bs rule: b64_encode.induct)
  case 1
  show ?case by simp
next
  case (2 a)
  note sb = sextet_bounds[OF of_char_lt_256[of a] of_char_lt_256[of a] of_char_lt_256[of a]]
  show ?case
    using sb(1,2)[THEN b64_char_not_nul] by simp
next
  case (3 a b)
  note sb = sextet_bounds[OF of_char_lt_256[of a] of_char_lt_256[of b] of_char_lt_256[of b]]
  show ?case
    using sb(1,3,4)[THEN b64_char_not_nul] by simp
next
  case (4 a b c rest)
  note sb = sextet_bounds[OF of_char_lt_256[of a] of_char_lt_256[of b] of_char_lt_256[of c]]
  show ?case
    using 4 sb(1,3,5,6)[THEN b64_char_not_nul] by simp
qed

lemma hex_table: "\<forall>n \<in> set [0..<16]. hex_digit_val (hex_chars ! n) = Some n \<and> hex_chars ! n \<noteq> CHR ''-''
    \<and> hex_chars ! n \<noteq> CHR '':'' \<and> hex_chars ! n \<noteq> CHR 0x00 \<and> hex_chars ! n \<noteq> CHR ''{''"
  by code_simp

lemma hex_digit_val_chars: "n < 16 \<Longrightarrow> hex_digit_val (hex_chars ! n) = Some n"
  using hex_table by simp

lemma hex_chars_distinct:
  assumes "n < 16"
  shows "hex_chars ! n \<noteq> CHR ''-''" "hex_chars ! n \<noteq> CHR '':''" "hex_chars ! n \<noteq> CHR 0x00"
    "hex_chars ! n \<noteq> CHR ''{''"
  using hex_table assms by simp_all

lemma nibbles:
  fixes b :: "8 word"
  shows "unat (drop_bit 4 b) < 16" and "unat (b AND 0x0F) < 16"
    and "word_of_nat (16 * unat (drop_bit 4 b) + unat (b AND 0x0F)) = b"
proof -
  have lt: "unat b < 256" using unsigned_less[of b] by simp
  have hi: "unat (drop_bit 4 b) = unat b div 16"
    by (simp add: unat_drop_bit_eq drop_bit_eq_div unat_div)
  have "b AND 0x0F = take_bit 4 b"
    by (simp add: take_bit_eq_mask mask_numeral)
  then have lo: "unat (b AND 0x0F) = unat b mod 16"
    by (simp add: unsigned_take_bit_eq take_bit_eq_mod unat_mod)
  show "unat (drop_bit 4 b) < 16" unfolding hi using lt by linarith
  show "unat (b AND 0x0F) < 16" unfolding lo by simp
  show "word_of_nat (16 * unat (drop_bit 4 b) + unat (b AND 0x0F)) = b"
    unfolding hi lo by simp
qed

lemma uuid_out_loop_Cons:
  "uuid_out_loop i (b # bs) =
     (if i = 4 \<or> i = 6 \<or> i = 8 \<or> i = 10 then ''-'' else []) @ hexpair b @ uuid_out_loop (Suc i) bs"
  by (simp add: hexpair_def)

lemma loop_hexpair:
  "string_to_uuid_loop (Suc k) i (hexpair b @ src) =
     (case string_to_uuid_loop k (Suc i)
             (if (case src of [] \<Rightarrow> False | c # _ \<Rightarrow> c = CHR ''-'') \<and> i mod 2 = 1 \<and> i < UUID_LEN - 1
              then tl src else src) of
        None \<Rightarrow> None
      | Some (bs, rest) \<Rightarrow> Some (b # bs, rest))"
proof -
  have w: "16 * drop_bit 4 b + (b AND 15) = b"
    using nibbles(3)[of b] by simp
  show ?thesis
    by (simp add: hexpair_def hex_digit_val_chars nibbles(1,2) w split: option.splits)
qed

lemma hexpair_hd: "hexpair b @ src = c # r \<Longrightarrow> c \<noteq> CHR ''-'' \<and> c \<noteq> CHR ''{''"
  by (auto simp: hexpair_def hex_chars_distinct nibbles)

lemma string_to_uuid_loop_out:
  "i + length bs = 15 \<Longrightarrow>
   string_to_uuid_loop (Suc (length bs)) i (hexpair b @ uuid_out_loop (Suc i) bs @ rest)
     = Some (b # bs, rest)"
proof (induction bs arbitrary: i b)
  case Nil
  then show ?case by (simp add: loop_hexpair UUID_LEN_def)
next
  case (Cons b' bs)
  have i: "Suc i + length bs = 15" using Cons.prems by simp
  note IH = Cons.IH[OF i, of b']
  show ?case
  proof (cases "Suc i = 4 \<or> Suc i = 6 \<or> Suc i = 8 \<or> Suc i = 10")
    case True
    then have odd: "i mod 2 = 1" "i < UUID_LEN - 1" by (auto simp: UUID_LEN_def)
    show ?thesis
      unfolding loop_hexpair uuid_out_loop_Cons using True odd IH by simp
  next
    case False
    obtain c r where cr: "hexpair b' @ uuid_out_loop (Suc (Suc i)) bs @ rest = c # r"
      by (simp add: hexpair_def)
    from hexpair_hd[OF cr] have "c \<noteq> CHR ''-''" by simp
    then show ?thesis
      unfolding loop_hexpair uuid_out_loop_Cons using False IH cr by simp
  qed
qed

lemma string_to_uuid_out: "valid_uuid u \<Longrightarrow> string_to_uuid (uuid_out u) = Some u"
proof -
  assume v: "valid_uuid u"
  then obtain b bs where u: "u = b # bs" and len: "length bs = 15"
    by (cases u) (auto simp: valid_uuid_def UUID_LEN_def)
  obtain c r where cr: "hexpair b @ uuid_out_loop (Suc 0) bs @ [] = c # r"
    by (simp add: hexpair_def)
  from hexpair_hd[OF cr] have nb: "c \<noteq> CHR ''{''" by simp
  have "string_to_uuid_loop UUID_LEN 0 (hexpair b @ uuid_out_loop (Suc 0) bs @ []) = Some (b # bs, [])"
    using string_to_uuid_loop_out[of 0 bs b "[]"] len by (simp add: UUID_LEN_def)
  then show ?thesis
    using cr nb unfolding string_to_uuid_def uuid_out_def u uuid_out_loop_Cons
    by simp
qed

lemma uuid_out_loop_chars:
  "c \<in> set (uuid_out_loop i bs) \<Longrightarrow> c \<noteq> CHR '':'' \<and> c \<noteq> CHR 0x00"
proof (induction bs arbitrary: i)
  case Nil
  then show ?case by simp
next
  case (Cons b bs)
  then show ?case
    using hex_chars_distinct[OF nibbles(1), of b] hex_chars_distinct[OF nibbles(2), of b]
    by (auto split: if_splits)
qed

lemma uuid_out_chars: "CHR '':'' \<notin> set (uuid_out u)" "CHR 0x00 \<notin> set (uuid_out u)"
  using uuid_out_loop_chars[of _ 0 u] by (auto simp: uuid_out_def)

lemma cstring_id: "CHR 0x00 \<notin> set s \<Longrightarrow> cstring s = s"
  by (auto simp: cstring_def takeWhile_eq_all_conv)

lemma encode_value:
  "fraiseql_encode_global_id (Some t) (Some u)
     = Inr (Some (b64_encode (cstring t @ '':'' @ uuid_out u)))"
proof -
  have 1: "cstring (uuid_out u) = uuid_out u"
    by (rule cstring_id) (rule uuid_out_chars)
  have "CHR 0x00 \<notin> set (cstring t)"
    unfolding cstring_def by (metis (mono_tags, lifting) set_takeWhileD)
  then have 2: "cstring (cstring t @ '':'' @ uuid_out u) = cstring t @ '':'' @ uuid_out u"
    by (intro cstring_id) (simp add: uuid_out_chars)
  have 3: "cstring (b64_encode bs) = b64_encode bs" for bs
    by (rule cstring_id) (rule b64_encode_no_nul)
  show ?thesis
    unfolding fraiseql_encode_global_id_def text_to_cstring_def cstring_to_text_def pg_encode_def
    by (simp add: Let_def 1 2 3 del: append.simps)
qed

lemma drop_after_first:
  "drop (Suc (length (takeWhile P xs))) xs = tl (dropWhile P xs)"
  by (simp add: dropWhile_eq_drop drop_Suc tl_drop)

lemma decode_value:
  assumes "get_call_result_type fc = TYPEFUNC_COMPOSITE" and "CHR 0x00 \<notin> set s"
  shows "fraiseql_decode_global_id fc (Some s) =
     (case b64_decode s of
        None \<Rightarrow> Inl (ereport ERRCODE_INVALID_PARAMETER_VALUE ''invalid base64 sequence'')
      | Some bs \<Rightarrow>
          if CHR '':'' \<notin> set (cstring bs)
          then Inl (ereport ERRCODE_INVALID_PARAMETER_VALUE
                      ''invalid global ID format: missing colon separator'')
          else (case string_to_uuid (tl (dropWhile (\<lambda>c. c \<noteq> CHR '':'') (cstring bs))) of
                  None \<Rightarrow> Inl (ereport ERRCODE_INVALID_TEXT_REPRESENTATION
                            (''invalid input syntax for type uuid: ''
                             @ tl (dropWhile (\<lambda>c. c \<noteq> CHR '':'') (cstring bs))))
                | Some u \<Rightarrow> Inr (Some (takeWhile (\<lambda>c. c \<noteq> CHR '':'') (cstring bs), u))))"
proof -
  have s: "cstring s = s" using assms(2) by (rule cstring_id)
  have tk: "take (length (takeWhile P xs)) xs = takeWhile P xs" for P and xs :: string
    by (metis takeWhile_eq_take)
  show ?thesis
    unfolding fraiseql_decode_global_id_def text_to_cstring_def cstring_to_text_def
      pg_decode_def uuid_in_def strchr_def
    using assms(1)
    by (simp add: Let_def s drop_after_first tk split: option.splits)
qed

section \<open>Facts about the batch query\<close>

lemma strip_prefix_append: "strip_prefix p (p @ r) = Some r"
  by (induction p) simp_all

lemma quote_table: "\<forall>n \<in> set [0..<16]. hex_chars ! n \<noteq> CHR 0x27"
  by code_simp

lemma uuid_out_loop_no_quote: "CHR 0x27 \<notin> set (uuid_out_loop i bs)"
proof (induction bs arbitrary: i)
  case Nil
  show ?case by simp
next
  case (Cons b bs)
  have "hex_chars ! unat (drop_bit 4 b) \<noteq> CHR 0x27" "hex_chars ! unat (b AND 0x0F) \<noteq> CHR 0x27"
    using quote_table nibbles(1,2)[of b] by simp_all
  then show ?case using Cons by (auto split: if_splits)
qed

lemma uuid_out_no_quote: "CHR 0x27 \<notin> set (uuid_out u)"
  by (simp add: uuid_out_def uuid_out_loop_no_quote)

lemma quoted_literal:
  assumes "CHR 0x27 \<notin> set lit"
  shows "quoted (CHR 0x27 # lit @ CHR 0x27 # r) = Some (lit, r)"
proof -
  have "takeWhile (\<lambda>c. c \<noteq> CHR 0x27) (lit @ CHR 0x27 # r) = lit"
    using assms by (induction lit) auto
  moreover have "dropWhile (\<lambda>c. c \<noteq> CHR 0x27) (lit @ CHR 0x27 # r) = CHR 0x27 # r"
    using assms by (induction lit) auto
  ultimately show ?thesis by (simp add: quoted_def)
qed

lemma quoted_uuid_item: "quoted (uuid_item u @ r) = Some (uuid_out u, r)"
  unfolding uuid_item_def using quoted_literal[OF uuid_out_no_quote, of u r] by simp

lemma parse_uuid_items_step:
  assumes "valid_uuid u"
  shows "parse_uuid_items (uuid_item u @ c # r) =
          (if c = CHR '','' then
             (case parse_uuid_items r of None \<Rightarrow> None | Some (us, rest) \<Rightarrow> Some (u # us, rest))
           else if c = CHR '']'' then Some ([u], r) else None)"
  by (subst parse_uuid_items.simps)
     (simp add: quoted_uuid_item string_to_uuid_out[OF assms])

lemma parse_uuid_items_rendered:
  assumes "\<forall>u \<in> set (u # us). valid_uuid u"
  shows "parse_uuid_items (uuid_item u @ uuid_items_tail us @ CHR '']'' # rest) = Some (u # us, rest)"
  using assms
proof (induction us arbitrary: u)
  case Nil
  then show ?case by (simp add: parse_uuid_items_step)
next
  case (Cons v us)
  have IH: "parse_uuid_items (uuid_item v @ uuid_items_tail us @ CHR '']'' # rest) = Some (v # us, rest)"
    using Cons.IH[of v] Cons.prems by simp
  have u: "valid_uuid u" using Cons.prems by simp
  show ?case
    by (simp add: parse_uuid_items_step[OF u] IH)
qed

lemma ids_buf_loop_Suc:
  "ids_buf_loop (Suc i) elems = uuid_items_tail (List.map_filter id elems)"
proof (induction elems arbitrary: i)
  case Nil
  show ?case by (simp add: List.map_filter_simps)
next
  case (Cons e elems)
  show ?case
  proof (cases e)
    case None
    then show ?thesis using Cons by (simp add: List.map_filter_simps)
  next
    case (Some u)
    have c: "cstring (uuid_out u) = uuid_out u" by (rule cstring_id) (rule uuid_out_chars)
    show ?thesis using Some Cons by (simp add: List.map_filter_simps uuid_item_def c)
  qed
qed

lemma ids_buf_loop_head:
  "ids_buf_loop 0 (Some u # elems) = uuid_item u @ uuid_items_tail (List.map_filter id elems)"
proof -
  have c: "cstring (uuid_out u) = uuid_out u" by (rule cstring_id) (rule uuid_out_chars)
  show ?thesis by (simp add: ids_buf_loop_Suc uuid_item_def c)
qed

lemma ids_buf_loop_nulls: "\<forall>e \<in> set elems. e = None \<Longrightarrow> ids_buf_loop i elems = []"
  by (induction elems arbitrary: i) auto

lemma parse_uuid_array_head:
  assumes "\<forall>u \<in> set (u # List.map_filter id elems). valid_uuid u"
  shows "parse_uuid_array (''ARRAY['' @ ids_buf_loop 0 (Some u # elems) @ '']::uuid[]'' @ rest)
         = Some (u # List.map_filter id elems, rest)"
proof -
  let ?items = "uuid_items_tail (List.map_filter id elems)"
  have 2: "parse_uuid_items (uuid_item u @ ?items @ CHR '']'' # (''::uuid[]'' @ rest))
           = Some (u # List.map_filter id elems, ''::uuid[]'' @ rest)"
    by (rule parse_uuid_items_rendered[OF assms])
  have 3: "''ARRAY['' @ ids_buf_loop 0 (Some u # elems) @ '']::uuid[]'' @ rest
           = ''ARRAY['' @ (uuid_item u @ ?items @ CHR '']'' # (''::uuid[]'' @ rest))"
    unfolding ids_buf_loop_head by simp
  have 4: "strip_prefix ''::uuid[]'' (''::uuid[]'' @ rest) = Some rest"
    by (rule strip_prefix_append)
  have 5: "strip_prefix '']'' (uuid_item u @ ?items @ CHR '']'' # (''::uuid[]'' @ rest)) = None"
    by (simp add: uuid_item_def)
  show ?thesis
    unfolding 3 parse_uuid_array_def strip_prefix_append
    by (simp only: option.case 5 2 prod.case 4)
qed

lemma parse_uuid_array_nulls:
  assumes "\<forall>e \<in> set elems. e = None"
  shows "parse_uuid_array (''ARRAY['' @ ids_buf_loop 0 elems @ '']::uuid[]'' @ rest) = Some ([], rest)"
  unfolding ids_buf_loop_nulls[OF assms] parse_uuid_array_def
  by simp

lemma SPI_execute_batch:
  "SPI_execute db (''SELECT __typename, data, entity_name, id FROM core.v_nodes WHERE id = ANY('' @ a)
   = (case exec_batch_select db a of
        None \<Rightarrow> Inr (SPI_ERROR_ARGUMENT, [], db)
      | Some tuples \<Rightarrow> Inr (SPI_OK_SELECT, tuples, db))"
  by (simp add: SPI_execute_def)

lemma batch_unfold:
  "fraiseql_resolve_nodes_batch fc db (Some arr) =
     (if ARR_ELEMTYPE arr \<noteq> UUIDOID
      then Inl (ereport ERRCODE_DATATYPE_MISMATCH ''array must contain UUID elements'')
      else if \<not> rsinfo_is_ReturnSetInfo fc
      then Inl (ereport ERRCODE_FEATURE_NOT_SUPPORTED
                  ''set-valued function called in context that cannot accept a set'')
      else if \<not> allowedModes_SFRM_Materialize fc
      then Inl (ereport ERRCODE_FEATURE_NOT_SUPPORTED
                  ''materialize mode required, but it is not allowed in this context'')
      else if get_call_result_type fc \<noteq> TYPEFUNC_COMPOSITE
      then Inl (elog ''return type must be a row type'')
      else if SPI_connect db \<noteq> SPI_OK_CONNECT
      then Inl (elog ''SPI_connect failed'')
      else (case exec_batch_select db
                   (''ARRAY['' @ ids_buf_loop 0 (ARR_elems arr) @ '']::uuid[]''
                    @ '') ORDER BY __typename, id'') of
              None \<Rightarrow>
                Inl (elog (''batch query failed: SELECT __typename, data, entity_name, id FROM core.v_nodes WHERE id = ANY(''
                           @ ''ARRAY['' @ ids_buf_loop 0 (ARR_elems arr) @ '']::uuid[]''
                           @ '') ORDER BY __typename, id''))
            | Some tuples \<Rightarrow>
                Inr (Some (map (\<lambda>spi_tuple. [SPI_getbinval spi_tuple 1, SPI_getbinval spi_tuple 2,
                                               SPI_getbinval spi_tuple 3,
                                               Some (TextD ''v_nodes_batch'')]) tuples))))"
proof -
  have q: "format_s ''SELECT __typename, data, entity_name, id FROM core.v_nodes WHERE id = ANY(%s) ORDER BY __typename, id'' [Some a]
           = ''SELECT __typename, data, entity_name, id FROM core.v_nodes WHERE id = ANY('' @ (a @ '') ORDER BY __typename, id'')" for a
    by simp
  have m: "format_s ''batch query failed: %s'' [Some a] = ''batch query failed: '' @ a" for a
    by simp
  show ?thesis
    unfolding fraiseql_resolve_nodes_batch_def Let_def q m SPI_execute_batch
    by (simp split: option.splits)
qed

lemma exec_batch_select_records:
  assumes "exec_batch_select db s = Some tuples"
  shows "\<exists>ids rows rest. parse_uuid_array s = Some (ids, rest) \<and> v_nodes_rows db = Some rows
     \<and> map (\<lambda>spi_tuple. [SPI_getbinval spi_tuple 1, SPI_getbinval spi_tuple 2,
                          SPI_getbinval spi_tuple 3, Some (TextD ''v_nodes_batch'')]) tuples
       = map batch_record
           (sort_key (\<lambda>r. (order_key (nr_typename r), order_key (nr_id r)))
              (filter (\<lambda>r. nr_id r \<in> (\<lambda>u. Some (UuidD u)) ` set ids) rows))"
  using assms unfolding exec_batch_select_def
  by (auto simp: SPI_getbinval_def batch_record_def comp_def split: option.splits if_splits)

section \<open>Facts about the view rebuild\<close>

lemma SPI_execute_registry:
  "SPI_execute db ''SELECT entity_name, graphql_type, pk_column, COALESCE(tv_table, v_table) as data_table, source_table, COALESCE(soft_delete_column, 'deleted_at') as delete_col FROM core.tb_entity_registry WHERE v_table IS NOT NULL ORDER BY entity_name''
   = Inr (SPI_OK_SELECT, registry_query db, db)"
  by (simp add: SPI_execute_def)

lemma SPI_execute_create_view:
  "SPI_execute db (''CREATE OR REPLACE VIEW core.v_nodes AS '' @ body)
   = (case exec_create_view db body of
        None \<Rightarrow> Inr (SPI_ERROR_ARGUMENT, [], db)
      | Some db' \<Rightarrow> Inr (SPI_OK_UTILITY, [], db'))"
  by (simp add: SPI_execute_def)

lemma SPI_execute_unchecked_drop:
  "SPI_execute_unchecked db ''DROP INDEX IF EXISTS core.idx_v_nodes_id'' = Inr db"
  "SPI_execute_unchecked db ''DROP INDEX IF EXISTS core.idx_v_nodes_typename'' = Inr db"
  "SPI_execute_unchecked db ''DROP INDEX IF EXISTS core.idx_v_nodes_entity_name'' = Inr db"
  by (simp_all add: SPI_execute_unchecked_def SPI_execute_def)

lemma SPI_execute_unchecked_create:
  "SPI_execute_unchecked db ''CREATE INDEX idx_v_nodes_id ON core.v_nodes(id)''
   = (case create_index_result db ''CREATE INDEX idx_v_nodes_id ON core.v_nodes(id)'' of
        Inl e \<Rightarrow> Inl e | Inr rc \<Rightarrow> Inr db)"
  "SPI_execute_unchecked db ''CREATE INDEX idx_v_nodes_typename ON core.v_nodes(__typename)''
   = (case create_index_result db ''CREATE INDEX idx_v_nodes_typename ON core.v_nodes(__typename)'' of
        Inl e \<Rightarrow> Inl e | Inr rc \<Rightarrow> Inr db)"
  "SPI_execute_unchecked db ''CREATE INDEX idx_v_nodes_entity_name ON core.v_nodes(entity_name)''
   = (case create_index_result db ''CREATE INDEX idx_v_nodes_entity_name ON core.v_nodes(entity_name)'' of
        Inl e \<Rightarrow> Inl e | Inr rc \<Rightarrow> Inr db)"
  by (simp_all add: SPI_execute_unchecked_def SPI_execute_def split: sum.splits)

lemma view_sql_of_empty:
  "view_sql_of [] = ''CREATE OR REPLACE VIEW core.v_nodes AS '' @ ''SELECT NULL::UUID as id, NULL::TEXT as __typename, NULL::TEXT as entity_name, NULL::TEXT as source_table, NULL::JSONB as data, NULL::TIMESTAMPTZ as created_at, NULL::TIMESTAMPTZ as updated_at WHERE FALSE''"
  by (simp add: view_sql_of_def)

lemma view_sql_of_rows:
  "ts \<noteq> [] \<Longrightarrow> view_sql_of ts = ''CREATE OR REPLACE VIEW core.v_nodes AS '' @ view_sql_loop 0 ts"
  by (simp add: view_sql_of_def)

lemma refresh_unfold:
  "fraiseql_refresh_nodes_view_fast db =
     (if SPI_connect db \<noteq> SPI_OK_CONNECT then Inl (elog ''SPI_connect failed'')
      else (case exec_create_view db
                   (if registry_query db = []
                    then ''SELECT NULL::UUID as id, NULL::TEXT as __typename, NULL::TEXT as entity_name, NULL::TEXT as source_table, NULL::JSONB as data, NULL::TIMESTAMPTZ as created_at, NULL::TIMESTAMPTZ as updated_at WHERE FALSE''
                    else view_sql_loop 0 (registry_query db)) of
              None \<Rightarrow> Inl (elog ''failed to refresh v_nodes view'')
            | Some db' \<Rightarrow>
                if registry_query db = [] then Inr (True, db')
                else (case create_index_result db' ''CREATE INDEX idx_v_nodes_id ON core.v_nodes(id)'' of
                        Inl e \<Rightarrow> Inl e
                      | Inr rc1 \<Rightarrow>
                     (case create_index_result db' ''CREATE INDEX idx_v_nodes_typename ON core.v_nodes(__typename)'' of
                        Inl e \<Rightarrow> Inl e
                      | Inr rc2 \<Rightarrow>
                     (case create_index_result db' ''CREATE INDEX idx_v_nodes_entity_name ON core.v_nodes(entity_name)'' of
                        Inl e \<Rightarrow> Inl e
                      | Inr rc3 \<Rightarrow> Inr (True, db'))))))"
proof (cases "registry_query db = []")
  case True
  show ?thesis
    unfolding fraiseql_refresh_nodes_view_fast_def SPI_execute_registry Let_def sum.case prod.case
      True view_sql_of_empty SPI_execute_create_view
    by (simp add: SPI_execute_unchecked_drop split: option.splits)
next
  case False
  show ?thesis
    unfolding fraiseql_refresh_nodes_view_fast_def SPI_execute_registry Let_def sum.case prod.case
      view_sql_of_rows[OF False] SPI_execute_create_view
    using False
    by (simp add: SPI_execute_unchecked_drop SPI_execute_unchecked_create
        split: option.splits sum.splits)
qed

lemma view_statement_unfold:
  "SPI_execute db (view_sql_of (registry_query db))
   = (case exec_create_view db
             (if registry_query db = []
              then ''SELECT NULL::UUID as id, NULL::TEXT as __typename, NULL::TEXT as entity_name, NULL::TEXT as source_table, NULL::JSONB as data, NULL::TIMESTAMPTZ as created_at, NULL::TIMESTAMPTZ as updated_at WHERE FALSE''
              else view_sql_loop 0 (registry_query db)) of
        None \<Rightarrow> Inr (SPI_ERROR_ARGUMENT, [], db)
      | Some db' \<Rightarrow> Inr (SPI_OK_UTILITY, [], db'))"
proof (cases "registry_query db = []")
  case True
  show ?thesis
    unfolding True view_sql_of_empty SPI_execute_create_view by simp
next
  case False
  show ?thesis
    unfolding view_sql_of_rows[OF False] SPI_execute_create_view using False by simp
qed

lemma registry_query_empty:
  assumes "\<forall>r \<in> set (tb_entity_registry db). v_table r = None"
  shows "registry_query db = []"
proof -
  have "filter (\<lambda>r. v_table r \<noteq> None) (tb_entity_registry db) = []"
    using assms by (simp add: filter_empty_conv)
  then show ?thesis by (simp add: registry_query_def)
qed

lemma resolve_node_empty_view:
  assumes "rsinfo_is_ReturnSetInfo fc" and "allowedModes_SFRM_Materialize fc"
    and "get_call_result_type fc = TYPEFUNC_COMPOSITE" and "SPI_connect db = SPI_OK_CONNECT"
    and "v_nodes_rows db = Some []"
  shows "fraiseql_resolve_node_fast fc db (Some node_id) = Inr (Some [])"
  using assms by (simp add: fraiseql_resolve_node_fast_def SPI_execute_with_args_def)

lemma format_branch:
  "format_s ''SELECT %s as id, '%s' as __typename, '%s' as entity_name, '%s' as source_table, data, created_at, updated_at FROM %s WHERE %s IS NULL''
     [Some pk, Some ty, Some en, Some src, Some tbl, Some col]
   = branch_text \<lparr>sb_pk_column = pk, sb_typename = ty, sb_entity_name = en,
                  sb_source_table = src, sb_from = tbl, sb_delete_col = col\<rparr>"
  by (simp add: branch_text_def)

lemma ident_prefix:
  assumes "is_identifier x" and "\<not> is_ident_char c"
  shows "ident (x @ c # r) = Some (x, c # r)"
proof -
  from assms(1) have ne: "x \<noteq> []" and all: "\<forall>a \<in> set x. is_ident_char a"
    by (simp_all add: is_identifier_def list_all_iff)
  have t: "takeWhile is_ident_char (x @ c # r) = x"
    using all assms(2) by (induction x) auto
  have d: "dropWhile is_ident_char (x @ c # r) = c # r"
    using all assms(2) by (induction x) auto
  show ?thesis unfolding ident_def t d using ne by simp
qed

lemma space_not_ident: "\<not> is_ident_char (CHR '' '')"
  by code_simp

lemma parse_branch_text:
  assumes "safe_branch b" and "rest = [] \<or> (\<exists>r. rest = CHR '' '' # r)"
  shows "parse_branch (branch_text b @ rest) = Some (b, rest)"
proof -
  from assms(1) have pk: "is_identifier (sb_pk_column b)" and tbl: "is_identifier (sb_from b)"
    and col: "is_identifier (sb_delete_col b)"
    and ty: "CHR 0x27 \<notin> set (sb_typename b)" and en: "CHR 0x27 \<notin> set (sb_entity_name b)"
    and src: "CHR 0x27 \<notin> set (sb_source_table b)"
    by (simp_all add: safe_branch_def)
  note i1 = ident_prefix[OF pk space_not_ident]
  note i2 = ident_prefix[OF tbl space_not_ident]
  note i3 = ident_prefix[OF col space_not_ident]
  note q1 = quoted_literal[OF ty]
  note q2 = quoted_literal[OF en]
  note q3 = quoted_literal[OF src]
  show ?thesis
    unfolding parse_branch_def branch_text_def
    by (simp add: i1 i2 i3 q1 q2 q3)
qed

lemma registry_query_tuples: "registry_query db = map registry_tuple (node_entities db)"
  by (simp add: registry_query_def registry_tuple_def node_entities_def)

lemma view_sql_loop_step:
  assumes "v_table r \<noteq> None"
  shows "view_sql_loop i (registry_tuple r # ts)
         = (if i > 0 then '' UNION ALL '' else []) @ branch_text (branch_of r)
           @ view_sql_loop (Suc i) ts"
proof -
  from assms obtain v where v: "v_table r = Some v" by blast
  have g: "SPI_getvalue (registry_tuple r) 1 = Some (entity_name r)"
    "SPI_getvalue (registry_tuple r) 2 = Some (graphql_type r)"
    "SPI_getvalue (registry_tuple r) 3 = Some (pk_column r)"
    "SPI_getvalue (registry_tuple r) 4 = Some (sb_from (branch_of r))"
    "SPI_getvalue (registry_tuple r) 5 = Some (source_table r)"
    "SPI_getvalue (registry_tuple r) 6 = Some (sb_delete_col (branch_of r))"
    by (simp_all add: SPI_getvalue_def SPI_getbinval_def registry_tuple_def branch_of_def v
        split: option.splits)
  have b: "\<lparr>sb_pk_column = pk_column r, sb_typename = graphql_type r,
           sb_entity_name = entity_name r, sb_source_table = source_table r,
           sb_from = sb_from (branch_of r), sb_delete_col = sb_delete_col (branch_of r)\<rparr>
          = branch_of r"
    by (simp add: branch_of_def)
  show ?thesis
    unfolding view_sql_loop.simps Let_def g format_branch b by simp
qed

lemma view_sql_loop_tail:
  assumes "\<forall>r \<in> set rs. v_table r \<noteq> None"
  shows "view_sql_loop (Suc i) (map registry_tuple rs) = union_tail (map branch_of rs)"
  using assms
proof (induction rs arbitrary: i)
  case Nil
  show ?case by simp
next
  case (Cons r rs)
  have r: "v_table r \<noteq> None" using Cons.prems by simp
  have "view_sql_loop (Suc i) (map registry_tuple (r # rs))
        = '' UNION ALL '' @ branch_text (branch_of r) @ view_sql_loop (Suc (Suc i)) (map registry_tuple rs)"
    using view_sql_loop_step[OF r, of "Suc i"] by simp
  also have "view_sql_loop (Suc (Suc i)) (map registry_tuple rs) = union_tail (map branch_of rs)"
    using Cons.IH Cons.prems by simp
  finally show ?case by simp
qed

lemma view_sql_loop_head:
  assumes "\<forall>r \<in> set (r # rs). v_table r \<noteq> None"
  shows "view_sql_loop 0 (map registry_tuple (r # rs))
         = branch_text (branch_of r) @ union_tail (map branch_of rs)"
proof -
  have r: "v_table r \<noteq> None" using assms by simp
  have t: "view_sql_loop (Suc 0) (map registry_tuple rs) = union_tail (map branch_of rs)"
    using view_sql_loop_tail[of rs 0] assms by simp
  show ?thesis using view_sql_loop_step[OF r, of 0] t by simp
qed

lemma union_tail_shape: "union_tail bs = [] \<or> (\<exists>r. union_tail bs = CHR '' '' # r)"
  by (cases bs) simp_all

lemma union_tail_length: "length bs \<le> length (union_tail bs)"
  by (induction bs) simp_all

lemma branch_text_length: "0 < length (branch_text b)"
  by (simp add: branch_text_def)

lemma parse_union_text:
  assumes "\<forall>b \<in> set (b # bs). safe_branch b" and "length bs < n"
  shows "parse_union n (branch_text b @ union_tail bs) = Some (b # bs)"
  using assms
proof (induction bs arbitrary: b n)
  case Nil
  then obtain m where n: "n = Suc m" by (cases n) auto
  have s: "safe_branch b" using Nil.prems by simp
  have "parse_branch (branch_text b @ []) = Some (b, [])"
    by (rule parse_branch_text[OF s]) simp
  then show ?case unfolding n by simp
next
  case (Cons b' bs)
  then obtain m where n: "n = Suc m" and m: "length bs < m" by (cases n) auto
  have s: "safe_branch b" using Cons.prems by simp
  let ?rest = "'' UNION ALL '' @ branch_text b' @ union_tail bs"
  have p: "parse_branch (branch_text b @ ?rest) = Some (b, ?rest)"
    by (rule parse_branch_text[OF s]) simp
  have ne: "?rest \<noteq> []" by simp
  have sp: "strip_prefix '' UNION ALL '' ?rest = Some (branch_text b' @ union_tail bs)"
    by (rule strip_prefix_append)
  have IH: "parse_union m (branch_text b' @ union_tail bs) = Some (b' # bs)"
    using Cons.IH[of b' m] Cons.prems m by simp
  have "parse_union (Suc m) (branch_text b @ ?rest) = Some (b # b' # bs)"
    unfolding parse_union.simps p using ne sp IH by (simp only: prod.case option.case if_False)
  then show ?case unfolding n by simp
qed

lemma empty_select_not_branch:
  "parse_branch ''SELECT NULL::UUID as id, NULL::TEXT as __typename, NULL::TEXT as entity_name, NULL::TEXT as source_table, NULL::JSONB as data, NULL::TIMESTAMPTZ as created_at, NULL::TIMESTAMPTZ as updated_at WHERE FALSE'' = None"
  by code_simp

lemma exec_create_view_branches:
  assumes "\<forall>b \<in> set (b # bs). safe_branch b \<and> branch_ok (relations db) b"
  shows "exec_create_view db (branch_text b @ union_tail bs) = Some (db\<lparr>v_nodes := Some (b # bs)\<rparr>)"
proof -
  let ?body = "branch_text b @ union_tail bs"
  have s: "\<forall>b \<in> set (b # bs). safe_branch b" using assms by simp
  have pb: "parse_branch ?body = Some (b, union_tail bs)"
    using parse_branch_text[of b "union_tail bs"] s union_tail_shape[of bs] by simp
  have ne: "?body \<noteq> ''SELECT NULL::UUID as id, NULL::TEXT as __typename, NULL::TEXT as entity_name, NULL::TEXT as source_table, NULL::JSONB as data, NULL::TIMESTAMPTZ as created_at, NULL::TIMESTAMPTZ as updated_at WHERE FALSE''"
    using pb empty_select_not_branch by auto
  have len: "length bs < length ?body"
    using union_tail_length[of bs] branch_text_length[of b] unfolding length_append by linarith
  have pu: "parse_union (length ?body) ?body = Some (b # bs)"
    by (rule parse_union_text[OF s len])
  have ok: "list_all (branch_ok (relations db)) (b # bs)"
    using assms by (simp add: list_all_iff)
  show ?thesis
    unfolding exec_create_view_def using ne pu ok by (simp only: if_False option.case if_True)
qed

lemma eval_branch_spec:
  "concat (map (eval_branch (relations db)) (map branch_of (node_entities db)))
   = unified_rows_spec db"
proof -
  have "eval_branch (relations db) (branch_of r)
        = (case map_of (relations db)
               (case tv_table r of Some t \<Rightarrow> t | None \<Rightarrow> (case v_table r of Some t \<Rightarrow> t | None \<Rightarrow> [])) of
          None \<Rightarrow> []
        | Some tbl \<Rightarrow>
            map (\<lambda>row. \<lparr>nr_id = row (pk_column r),
                        nr_typename = Some (TextD (graphql_type r)),
                        nr_entity_name = Some (TextD (entity_name r)),
                        nr_source_table = Some (TextD (source_table r)),
                        nr_data = row ''data'',
                        nr_created_at = row ''created_at'',
                        nr_updated_at = row ''updated_at''\<rparr>)
              (filter (\<lambda>row. row (case soft_delete_column r of
                                      Some c \<Rightarrow> c | None \<Rightarrow> ''deleted_at'') = None)
                 (tbl_rows tbl)))" for r
    by (simp add: eval_branch_def branch_of_def split: option.splits)
  then show ?thesis
    by (simp add: unified_rows_spec_def comp_def)
qed

lemma node_entities_set: "r \<in> set (node_entities db) \<Longrightarrow> v_table r \<noteq> None"
  by (simp add: node_entities_def)

lemma view_installs_branches:
  assumes "\<forall>r \<in> set (node_entities db).
             safe_branch (branch_of r) \<and> branch_ok (relations db) (branch_of r)"
  shows "exec_create_view db
           (if registry_query db = []
            then ''SELECT NULL::UUID as id, NULL::TEXT as __typename, NULL::TEXT as entity_name, NULL::TEXT as source_table, NULL::JSONB as data, NULL::TIMESTAMPTZ as created_at, NULL::TIMESTAMPTZ as updated_at WHERE FALSE''
            else view_sql_loop 0 (registry_query db))
         = Some (db\<lparr>v_nodes := Some (map branch_of (node_entities db))\<rparr>)"
proof (cases "node_entities db")
  case Nil
  then show ?thesis
    unfolding registry_query_tuples by (simp add: exec_create_view_def)
next
  case (Cons r rs)
  have reg: "\<forall>r \<in> set (r # rs). v_table r \<noteq> None"
    using node_entities_set[of _ db] Cons by auto
  have ok: "\<forall>b \<in> set (branch_of r # map branch_of rs).
              safe_branch b \<and> branch_ok (relations db) b"
    using assms Cons by auto
  have body: "(if registry_query db = []
               then ''SELECT NULL::UUID as id, NULL::TEXT as __typename, NULL::TEXT as entity_name, NULL::TEXT as source_table, NULL::JSONB as data, NULL::TIMESTAMPTZ as created_at, NULL::TIMESTAMPTZ as updated_at WHERE FALSE''
               else view_sql_loop 0 (registry_query db))
              = branch_text (branch_of r) @ union_tail (map branch_of rs)"
    unfolding registry_query_tuples Cons using view_sql_loop_head[OF reg] by simp
  have ex: "exec_create_view db (branch_text (branch_of r) @ union_tail (map branch_of rs))
            = Some (db\<lparr>v_nodes := Some (branch_of r # map branch_of rs)\<rparr>)"
    by (rule exec_create_view_branches[OF ok])
  show ?thesis
    unfolding body ex using Cons by simp
qed

lemma view_rows_spec:
  "v_nodes_rows (db\<lparr>v_nodes := Some (map branch_of (node_entities db))\<rparr>)
   = Some (unified_rows_spec db)"
  using eval_branch_spec[of db] by (simp add: v_nodes_rows_def)

lemma registry_query_nonempty: "(registry_query db = []) = (node_entities db = [])"
  by (simp add: registry_query_def node_entities_def)

lemma refresh_installs_branches:
  assumes "SPI_connect db = SPI_OK_CONNECT"
    and "\<forall>r \<in> set (node_entities db).
           safe_branch (branch_of r) \<and> branch_ok (relations db) (branch_of r)"
  shows "fraiseql_refresh_nodes_view_fast db
         = (if node_entities db = []
            then Inr (True, db\<lparr>v_nodes := Some (map branch_of (node_entities db))\<rparr>)
            else (case create_index_result db ''CREATE INDEX idx_v_nodes_id ON core.v_nodes(id)'' of
                    Inl e \<Rightarrow> Inl e
                  | Inr rc1 \<Rightarrow>
                 (case create_index_result db ''CREATE INDEX idx_v_nodes_typename ON core.v_nodes(__typename)'' of
                    Inl e \<Rightarrow> Inl e
                  | Inr rc2 \<Rightarrow>
                 (case create_index_result db ''CREATE INDEX idx_v_nodes_entity_name ON core.v_nodes(entity_name)'' of
                    Inl e \<Rightarrow> Inl e
                  | Inr rc3 \<Rightarrow>
                      Inr (True, db\<lparr>v_nodes := Some (map branch_of (node_entities db))\<rparr>)))))"
proof -
  note v = view_installs_branches[OF assms(2)]
  show ?thesis
    unfolding refresh_unfold v using assms(1)
    by (simp add: registry_query_nonempty split: sum.splits)
qed

lemma example_descriptors:
  "\<forall>r \<in> set (node_entities example_db).
     safe_branch (branch_of r) \<and> branch_ok (relations example_db) (branch_of r)"
  "map branch_of (node_entities example_db) = example_view"
  by code_simp+

lemma view_columns_empty:
  "view_columns (view_sql_of [])
   = Some [''id'', ''__typename'', ''entity_name'', ''source_table'', ''data'', ''created_at'', ''updated_at'']"
  by code_simp

lemma quote_not_ident: "\<not> is_ident_char (CHR 0x27)"
  by code_simp

lemma quoted_ident_none:
  assumes "is_identifier x"
  shows "quoted (x @ r) = None"
proof -
  from assms obtain p ps where x: "x = p # ps" and p: "is_ident_char p"
    by (cases x) (auto simp: is_identifier_def)
  from p quote_not_ident have "p \<noteq> CHR 0x27" by auto
  then show ?thesis by (simp add: x quoted_def)
qed

lemma ident_chars:
  "is_ident_char (CHR ''a'')" "is_ident_char (CHR ''c'')" "is_ident_char (CHR ''d'')"
  "is_ident_char (CHR ''e'')" "is_ident_char (CHR ''i'')" "is_ident_char (CHR ''l'')"
  "is_ident_char (CHR ''m'')" "is_ident_char (CHR ''n'')" "is_ident_char (CHR ''o'')"
  "is_ident_char (CHR ''p'')" "is_ident_char (CHR ''r'')" "is_ident_char (CHR ''s'')"
  "is_ident_char (CHR ''t'')" "is_ident_char (CHR ''u'')" "is_ident_char (CHR ''y'')"
  "is_ident_char (CHR ''b'')" "is_ident_char (CHR ''_'')"
  "\<not> is_ident_char (CHR '','')" "\<not> is_ident_char (CHR '' '')"
  by code_simp+

lemma quoted_Cons_none: "c \<noteq> CHR 0x27 \<Longrightarrow> quoted (c # r) = None"
  by (simp add: quoted_def)

lemma ident_Cons:
  "is_ident_char c \<Longrightarrow>
   ident (c # r) = Some (c # takeWhile is_ident_char r, dropWhile is_ident_char r)"
  by (simp add: ident_def)

lemma select_items_branch:
  assumes "safe_branch b" and "7 \<le> n"
  shows "select_items n (sb_pk_column b @ '' as id, '' @ [CHR 0x27] @ sb_typename b @ [CHR 0x27]
     @ '' as __typename, '' @ [CHR 0x27] @ sb_entity_name b @ [CHR 0x27]
     @ '' as entity_name, '' @ [CHR 0x27] @ sb_source_table b @ [CHR 0x27]
     @ '' as source_table, data, created_at, updated_at FROM '' @ r)
   = Some [''id'', ''__typename'', ''entity_name'', ''source_table'', ''data'', ''created_at'', ''updated_at'']"
proof -
  from assms(1) have pk: "is_identifier (sb_pk_column b)"
    and ty: "CHR 0x27 \<notin> set (sb_typename b)" and en: "CHR 0x27 \<notin> set (sb_entity_name b)"
    and src: "CHR 0x27 \<notin> set (sb_source_table b)"
    by (simp_all add: safe_branch_def)
  from assms(2) have "n = Suc (Suc (Suc (Suc (Suc (Suc (Suc (n - 7)))))))" by simp
  then obtain m where n: "n = Suc (Suc (Suc (Suc (Suc (Suc (Suc m))))))" by blast
  note i1 = ident_prefix[OF pk space_not_ident]
  note q0 = quoted_ident_none[OF pk]
  note q1 = quoted_literal[OF ty]
  note q2 = quoted_literal[OF en]
  note q3 = quoted_literal[OF src]
  show ?thesis
    unfolding n
    by (simp add: select_item_def i1 q0 q1 q2 q3 ident_Cons quoted_Cons_none ident_chars)
qed

lemma view_columns_branches:
  assumes "node_entities db \<noteq> []"
    and "\<forall>r \<in> set (node_entities db). safe_branch (branch_of r)"
  shows "view_columns (view_sql_of (registry_query db))
   = Some [''id'', ''__typename'', ''entity_name'', ''source_table'', ''data'', ''created_at'', ''updated_at'']"
proof -
  from assms(1) obtain r rs where ne: "node_entities db = r # rs" by (cases "node_entities db") auto
  have reg: "\<forall>r \<in> set (r # rs). v_table r \<noteq> None"
    using node_entities_set[of _ db] ne by auto
  have safe: "safe_branch (branch_of r)" using assms(2) ne by simp
  let ?b = "branch_of r"
  let ?items = "sb_pk_column ?b @ '' as id, '' @ [CHR 0x27] @ sb_typename ?b @ [CHR 0x27]
     @ '' as __typename, '' @ [CHR 0x27] @ sb_entity_name ?b @ [CHR 0x27]
     @ '' as entity_name, '' @ [CHR 0x27] @ sb_source_table ?b @ [CHR 0x27]
     @ '' as source_table, data, created_at, updated_at FROM ''
     @ (sb_from ?b @ '' WHERE '' @ sb_delete_col ?b @ '' IS NULL'' @ union_tail (map branch_of rs))"
  have sql: "view_sql_of (registry_query db)
             = ''CREATE OR REPLACE VIEW core.v_nodes AS '' @ (''SELECT '' @ ?items)"
    unfolding registry_query_tuples ne
    using view_sql_of_rows[of "map registry_tuple (r # rs)"] view_sql_loop_head[OF reg]
    by (simp add: branch_text_def)
  have len: "7 \<le> length ?items" by simp
  show ?thesis
    unfolding sql view_columns_def strip_prefix_append
    using select_items_branch[OF safe len] by simp
qed

section \<open>Claims about the codec\<close>

text \<open>
  C1. For every type name without a colon and every UUID, decoding what encode returns
  gives back the pair: encode returns the base64 text of \<open>typeName:uuid\<close>, and decode
  of that text returns \<open>(typeName, localId)\<close>. A type name is a \<open>text\<close> value (no NUL
  byte), a UUID has sixteen bytes, and decode is called where a row is expected.
\<close>

theorem encode_decode_roundtrip:
  assumes "CHR '':'' \<notin> set typeName" and "CHR 0x00 \<notin> set typeName"
    and "valid_uuid localId" and "get_call_result_type fc = TYPEFUNC_COMPOSITE"
  shows "fraiseql_encode_global_id (Some typeName) (Some localId)
           = Inr (Some (b64_encode (typeName @ '':'' @ uuid_out localId)))
       \<and> fraiseql_decode_global_id fc (Some (b64_encode (typeName @ '':'' @ uuid_out localId)))
           = Inr (Some (typeName, localId))"
proof -
  let ?payload = "typeName @ '':'' @ uuid_out localId"
  have t: "cstring typeName = typeName" using assms(2) by (rule cstring_id)
  have enc: "fraiseql_encode_global_id (Some typeName) (Some localId) = Inr (Some (b64_encode ?payload))"
    by (simp only: encode_value t)
  have "CHR 0x00 \<notin> set ?payload" using assms(2) uuid_out_chars(2)[of localId] by simp
  then have p: "cstring ?payload = ?payload" by (rule cstring_id)
  have colon: "CHR '':'' \<in> set ?payload" by simp
  have tw: "takeWhile (\<lambda>c. c \<noteq> CHR '':'') ?payload = typeName"
    using assms(1) by (induction typeName) auto
  have dw: "tl (dropWhile (\<lambda>c. c \<noteq> CHR '':'') ?payload) = uuid_out localId"
    using assms(1) by (induction typeName) auto
  have dec: "fraiseql_decode_global_id fc (Some (b64_encode ?payload)) = Inr (Some (typeName, localId))"
    unfolding decode_value[OF assms(4) b64_encode_no_nul] b64_roundtrip
    using colon by (simp only: option.case p tw dw string_to_uuid_out[OF assms(3)]) simp
  show ?thesis using enc dec by (rule conjI)
qed

theorem encode_decode_roundtrip_witness:
  "CHR '':'' \<notin> set ''User'' \<and> CHR 0x00 \<notin> set ''User'' \<and> valid_uuid example_uuid
   \<and> get_call_result_type row_call = TYPEFUNC_COMPOSITE
   \<and> fraiseql_encode_global_id (Some ''User'') (Some example_uuid)
       = Inr (Some ''VXNlcjoxMjNlNDU2Ny1lODliLTEyZDMtYTQ1Ni00MjY2MTQxNzQwMDA='')
   \<and> fraiseql_decode_global_id row_call
         (Some ''VXNlcjoxMjNlNDU2Ny1lODliLTEyZDMtYTQ1Ni00MjY2MTQxNzQwMDA='')
       = Inr (Some (''User'', example_uuid))"
proof -
  have h1: "CHR '':'' \<notin> set ''User''" and h2: "CHR 0x00 \<notin> set ''User''" by simp_all
  have h3: "valid_uuid example_uuid" by (simp add: valid_uuid_def example_uuid_def UUID_LEN_def)
  have h4: "get_call_result_type row_call = TYPEFUNC_COMPOSITE" by (simp add: row_call_def)
  have e: "b64_encode (''User'' @ '':'' @ uuid_out example_uuid)
           = ''VXNlcjoxMjNlNDU2Ny1lODliLTEyZDMtYTQ1Ni00MjY2MTQxNzQwMDA=''"
    by code_simp
  from encode_decode_roundtrip[OF h1 h2 h3 h4] h1 h2 h3 h4 show ?thesis
    unfolding e by blast
qed

text \<open>
  C2 (as stated): encode fails with \<open>InvalidTypeName\<close> for a type name that contains a
  colon. The function has no such check: for \<open>a:b\<close> it returns a global ID.
\<close>

theorem encode_colon_counterexample:
  "fraiseql_encode_global_id (Some ''a:b'') (Some example_uuid)
     = Inr (Some ''YTpiOjEyM2U0NTY3LWU4OWItMTJkMy1hNDU2LTQyNjYxNDE3NDAwMA=='')"
  by code_simp

text \<open>
  C2 (amended): for every type name, with or without a colon, and every UUID, encode
  succeeds and returns the base64 text of \<open>typeName:uuid\<close>; it raises no error.
\<close>

theorem encode_never_rejects:
  "fraiseql_encode_global_id (Some typeName) (Some localId)
     = Inr (Some (b64_encode (cstring typeName @ '':'' @ uuid_out localId)))"
  by (rule encode_value)




section \<open>Claims about the resolvers\<close>

text \<open>
  C3. The batch resolver skips NULL entries; the claim is that a NULL entry at any
  position, the first included, never makes the call fail. Evaluated on the code: with
  a NULL first and a UUID after it, the comma printed for index 1 follows \<open>ARRAY[\<close>
  directly, the storage engine rejects the query, and the call fails with
  \<open>batch query failed\<close>; the same two entries in the other order resolve.
\<close>

theorem batch_leading_null_fails:
  "fraiseql_resolve_nodes_batch set_call (example_db\<lparr>v_nodes := Some example_view\<rparr>)
     (Some \<lparr>ARR_ELEMTYPE = UUIDOID, ARR_elems = [None, Some uuid_A1]\<rparr>)
   = Inl (elog ''batch query failed: SELECT __typename, data, entity_name, id FROM core.v_nodes WHERE id = ANY(ARRAY[,'00000000-0000-0000-0000-0000000000a1']::uuid[]) ORDER BY __typename, id'')
   \<and> fraiseql_resolve_nodes_batch set_call (example_db\<lparr>v_nodes := Some example_view\<rparr>)
     (Some \<lparr>ARR_ELEMTYPE = UUIDOID, ARR_elems = [Some uuid_A1, None]\<rparr>)
   = Inr (Some [[Some (TextD ''Alpha''), Some (JsonbD ''{}''), Some (TextD ''alpha''),
                 Some (TextD ''v_nodes_batch'')]])"
  by code_simp

text \<open>
  C4 (as stated): every record of the batch output includes the matched id, besides the
  typeName, the entityName and the data. The query selects \<open>id\<close> as its fourth column,
  but the loop reads the first three columns only and stores the constant
  \<open>v_nodes_batch\<close> as the fourth field: the record resolved for A1 has four fields, and
  none of them is the id of A1.
\<close>

theorem batch_record_id_counterexample:
  "fraiseql_resolve_nodes_batch set_call (example_db\<lparr>v_nodes := Some example_view\<rparr>)
     (Some \<lparr>ARR_ELEMTYPE = UUIDOID, ARR_elems = [Some uuid_A1]\<rparr>)
   = Inr (Some [[Some (TextD ''Alpha''), Some (JsonbD ''{}''), Some (TextD ''alpha''),
                 Some (TextD ''v_nodes_batch'')]])
   \<and> Some (UuidD uuid_A1) \<notin> set [Some (TextD ''Alpha''), Some (JsonbD ''{}''),
                                  Some (TextD ''alpha''), Some (TextD ''v_nodes_batch'')]"
  by code_simp

text \<open>
  C4 (amended): whenever the batch resolver returns, every record of its output is the
  projection of a row of the unified view to four fields: the typeName, the data and the
  entityName of that row and the constant source \<open>v_nodes_batch\<close>. The matched id is
  not a field of the record.
\<close>

theorem batch_record_fields:
  assumes "fraiseql_resolve_nodes_batch fc db (Some node_ids) = Inr (Some out)"
  shows "\<exists>rows matched. v_nodes_rows db = Some rows \<and> set matched \<subseteq> set rows
           \<and> out = map batch_record matched"
proof -
  from assms obtain tuples where
    t: "exec_batch_select db (''ARRAY['' @ ids_buf_loop 0 (ARR_elems node_ids) @ '']::uuid[]''
                              @ '') ORDER BY __typename, id'') = Some tuples"
    and out: "out = map (\<lambda>spi_tuple. [SPI_getbinval spi_tuple 1, SPI_getbinval spi_tuple 2,
                                       SPI_getbinval spi_tuple 3,
                                       Some (TextD ''v_nodes_batch'')]) tuples"
    unfolding batch_unfold by (auto split: if_splits option.splits)
  from exec_batch_select_records[OF t] obtain ids rows where
    rows: "v_nodes_rows db = Some rows"
    and m: "out = map batch_record
              (sort_key (\<lambda>r. (order_key (nr_typename r), order_key (nr_id r)))
                 (filter (\<lambda>r. nr_id r \<in> (\<lambda>u. Some (UuidD u)) ` set ids) rows))"
    unfolding out by blast
  have "set (sort_key (\<lambda>r. (order_key (nr_typename r), order_key (nr_id r)))
               (filter (\<lambda>r. nr_id r \<in> (\<lambda>u. Some (UuidD u)) ` set ids) rows)) \<subseteq> set rows"
    by auto
  with rows m show ?thesis by blast
qed

theorem batch_record_fields_witness:
  "fraiseql_resolve_nodes_batch set_call (example_db\<lparr>v_nodes := Some example_view\<rparr>)
     (Some \<lparr>ARR_ELEMTYPE = UUIDOID, ARR_elems = [Some uuid_B1, Some uuid_A1]\<rparr>)
   = Inr (Some [[Some (TextD ''Alpha''), Some (JsonbD ''{}''), Some (TextD ''alpha''),
                 Some (TextD ''v_nodes_batch'')],
                [Some (TextD ''Beta''), Some (JsonbD ''[1]''), Some (TextD ''beta''),
                 Some (TextD ''v_nodes_batch'')]])
   \<and> (\<exists>rows matched. v_nodes_rows (example_db\<lparr>v_nodes := Some example_view\<rparr>) = Some rows
         \<and> set matched \<subseteq> set rows
         \<and> [[Some (TextD ''Alpha''), Some (JsonbD ''{}''), Some (TextD ''alpha''),
              Some (TextD ''v_nodes_batch'')],
             [Some (TextD ''Beta''), Some (JsonbD ''[1]''), Some (TextD ''beta''),
              Some (TextD ''v_nodes_batch'')]] = map batch_record matched)"
proof -
  have h: "fraiseql_resolve_nodes_batch set_call (example_db\<lparr>v_nodes := Some example_view\<rparr>)
     (Some \<lparr>ARR_ELEMTYPE = UUIDOID, ARR_elems = [Some uuid_B1, Some uuid_A1]\<rparr>)
   = Inr (Some [[Some (TextD ''Alpha''), Some (JsonbD ''{}''), Some (TextD ''alpha''),
                 Some (TextD ''v_nodes_batch'')],
                [Some (TextD ''Beta''), Some (JsonbD ''[1]''), Some (TextD ''beta''),
                 Some (TextD ''v_nodes_batch'')]])"
    by code_simp
  from batch_record_fields[OF h] h show ?thesis by blast
qed

text \<open>
  C8. For every input sequence of UUIDs, where a set of rows is accepted and the unified
  view exists: the output is the projection of the matching rows of the view in ascending
  order of (typeName, id), and any other sequence with the same set of identifiers, in
  whatever order and with whatever repetitions, gives the same output.
\<close>

theorem batch_order:
  assumes "rsinfo_is_ReturnSetInfo fc" and "allowedModes_SFRM_Materialize fc"
    and "get_call_result_type fc = TYPEFUNC_COMPOSITE"
    and "SPI_connect db = SPI_OK_CONNECT" and "v_nodes_rows db = Some rows"
    and "\<forall>u \<in> set ids. valid_uuid u" and "set ids' = set ids"
  shows "fraiseql_resolve_nodes_batch fc db
           (Some \<lparr>ARR_ELEMTYPE = UUIDOID, ARR_elems = map Some ids\<rparr>)
         = Inr (Some (map batch_record
                  (sort_key (\<lambda>r. (order_key (nr_typename r), order_key (nr_id r)))
                     (filter (\<lambda>r. nr_id r \<in> (\<lambda>u. Some (UuidD u)) ` set ids) rows))))
       \<and> sorted (map (\<lambda>r. (order_key (nr_typename r), order_key (nr_id r)))
                  (sort_key (\<lambda>r. (order_key (nr_typename r), order_key (nr_id r)))
                     (filter (\<lambda>r. nr_id r \<in> (\<lambda>u. Some (UuidD u)) ` set ids) rows)))
       \<and> fraiseql_resolve_nodes_batch fc db
           (Some \<lparr>ARR_ELEMTYPE = UUIDOID, ARR_elems = map Some ids'\<rparr>)
         = fraiseql_resolve_nodes_batch fc db
           (Some \<lparr>ARR_ELEMTYPE = UUIDOID, ARR_elems = map Some ids\<rparr>)"
proof -
  have result: "fraiseql_resolve_nodes_batch fc db
           (Some \<lparr>ARR_ELEMTYPE = UUIDOID, ARR_elems = map Some xs\<rparr>)
         = Inr (Some (map batch_record
                  (sort_key (\<lambda>r. (order_key (nr_typename r), order_key (nr_id r)))
                     (filter (\<lambda>r. nr_id r \<in> (\<lambda>u. Some (UuidD u)) ` set xs) rows))))"
    if valid: "\<forall>u \<in> set xs. valid_uuid u" for xs
  proof -
    let ?s = "''ARRAY['' @ ids_buf_loop 0 (map Some xs) @ '']::uuid[]'' @ '') ORDER BY __typename, id''"
    have mf: "List.map_filter id (map Some ys) = ys" for ys :: "pg_uuid_t list"
      by (induction ys) (simp_all add: List.map_filter_simps)
    have p: "parse_uuid_array ?s = Some (xs, '') ORDER BY __typename, id'')"
    proof (cases xs)
      case Nil
      then show ?thesis using parse_uuid_array_nulls[of "[]"] by simp
    next
      case (Cons x xs')
      then show ?thesis
        using parse_uuid_array_head[of x "map Some xs'" "'') ORDER BY __typename, id''"] valid
        by (simp add: mf)
    qed
    have e: "exec_batch_select db ?s
             = Some (map (\<lambda>r. [nr_typename r, nr_data r, nr_entity_name r, nr_id r])
                       (sort_key (\<lambda>r. (order_key (nr_typename r), order_key (nr_id r)))
                          (filter (\<lambda>r. nr_id r \<in> (\<lambda>u. Some (UuidD u)) ` set xs) rows)))"
      unfolding exec_batch_select_def p using assms(5) by simp
    show ?thesis
      unfolding batch_unfold using assms(1-4) e
      by (simp add: SPI_getbinval_def batch_record_def comp_def)
  qed
  have v': "\<forall>u \<in> set ids'. valid_uuid u" using assms(6,7) by simp
  have s: "sorted (map (\<lambda>r. (order_key (nr_typename r), order_key (nr_id r)))
                  (sort_key (\<lambda>r. (order_key (nr_typename r), order_key (nr_id r)))
                     (filter (\<lambda>r. nr_id r \<in> (\<lambda>u. Some (UuidD u)) ` set ids) rows)))"
    by (rule sorted_sort_key)
  show ?thesis
    using result[OF assms(6)] result[OF v'] s assms(7) by simp
qed

theorem batch_order_witness:
  "valid_uuid uuid_A1 \<and> valid_uuid uuid_B1
   \<and> fraiseql_resolve_nodes_batch set_call (example_db\<lparr>v_nodes := Some example_view\<rparr>)
       (Some \<lparr>ARR_ELEMTYPE = UUIDOID, ARR_elems = map Some [uuid_B1, uuid_A1]\<rparr>)
     = Inr (Some [[Some (TextD ''Alpha''), Some (JsonbD ''{}''), Some (TextD ''alpha''),
                   Some (TextD ''v_nodes_batch'')],
                  [Some (TextD ''Beta''), Some (JsonbD ''[1]''), Some (TextD ''beta''),
                   Some (TextD ''v_nodes_batch'')]])
   \<and> fraiseql_resolve_nodes_batch set_call (example_db\<lparr>v_nodes := Some example_view\<rparr>)
       (Some \<lparr>ARR_ELEMTYPE = UUIDOID, ARR_elems = map Some [uuid_A1, uuid_B1, uuid_A1]\<rparr>)
     = fraiseql_resolve_nodes_batch set_call (example_db\<lparr>v_nodes := Some example_view\<rparr>)
       (Some \<lparr>ARR_ELEMTYPE = UUIDOID, ARR_elems = map Some [uuid_B1, uuid_A1]\<rparr>)"
proof -
  let ?db = "example_db\<lparr>v_nodes := Some example_view\<rparr>"
  obtain rows where rows: "v_nodes_rows ?db = Some rows"
    by (simp add: v_nodes_rows_def)
  have c: "rsinfo_is_ReturnSetInfo set_call" "allowedModes_SFRM_Materialize set_call"
    "get_call_result_type set_call = TYPEFUNC_COMPOSITE"
    by (simp_all add: set_call_def)
  have d: "SPI_connect ?db = SPI_OK_CONNECT" by (simp add: example_db_def)
  have v: "valid_uuid uuid_A1" "valid_uuid uuid_B1"
    by (simp_all add: valid_uuid_def uuid_A1_def uuid_B1_def UUID_LEN_def)
  then have vs: "\<forall>u \<in> set [uuid_B1, uuid_A1]. valid_uuid u" by simp
  have ss: "set [uuid_A1, uuid_B1, uuid_A1] = set [uuid_B1, uuid_A1]" by auto
  have r: "fraiseql_resolve_nodes_batch set_call ?db
       (Some \<lparr>ARR_ELEMTYPE = UUIDOID, ARR_elems = map Some [uuid_B1, uuid_A1]\<rparr>)
     = Inr (Some [[Some (TextD ''Alpha''), Some (JsonbD ''{}''), Some (TextD ''alpha''),
                   Some (TextD ''v_nodes_batch'')],
                  [Some (TextD ''Beta''), Some (JsonbD ''[1]''), Some (TextD ''beta''),
                   Some (TextD ''v_nodes_batch'')]])"
    by code_simp
  from batch_order[OF c d rows vs ss] v r show ?thesis by simp
qed

text \<open>
  C10. Each of encode, decode, single-node resolution and batch resolution returns NULL
  for a NULL argument, whatever the call context and the database: the NULL test is the
  first statement of each function.
\<close>

theorem null_argument_null_result:
  "fraiseql_encode_global_id None localId = Inr None
   \<and> fraiseql_encode_global_id typeName None = Inr None
   \<and> fraiseql_decode_global_id fc None = Inr None
   \<and> fraiseql_resolve_node_fast fc db None = Inr None
   \<and> fraiseql_resolve_nodes_batch fc db None = Inr None"
  by (simp add: fraiseql_encode_global_id_def fraiseql_decode_global_id_def
      fraiseql_resolve_node_fast_def fraiseql_resolve_nodes_batch_def split: option.splits)

section \<open>Claims about the view synthesis\<close>

text \<open>
  C6 (as stated): for every registry snapshot the synthesized view contains the live rows
  of each registered backing collection, and a descriptor without a soft-delete field gets
  the default \<open>deleted_at\<close> instead of a failure. The rebuild copies the registry's text
  into the statement as it is and checks nothing about it. With one descriptor that
  configures no soft-delete field, over a backing collection that has a live row and no
  column \<open>deleted_at\<close>, the statement names a column that does not exist and the rebuild
  fails; no view is installed. With a type name that has a quote, the statement cannot be
  read and the rebuild fails as well.
\<close>

theorem unified_view_counterexample:
  "map soft_delete_column
       (node_entities (example_db\<lparr>tb_entity_registry := registry_no_sentinel_column\<rparr>))
     = [None]
   \<and> map nr_id (unified_rows_spec (example_db\<lparr>tb_entity_registry := registry_no_sentinel_column\<rparr>))
     = [Some (UuidD uuid_A1)]
   \<and> fraiseql_refresh_nodes_view_fast
         (example_db\<lparr>tb_entity_registry := registry_no_sentinel_column\<rparr>)
     = Inl (elog ''failed to refresh v_nodes view'')
   \<and> map graphql_type (node_entities (example_db\<lparr>tb_entity_registry := registry_quoted_name\<rparr>))
     = [''Alpha's'']
   \<and> fraiseql_refresh_nodes_view_fast (example_db\<lparr>tb_entity_registry := registry_quoted_name\<rparr>)
     = Inl (elog ''failed to refresh v_nodes view'')"
proof -
  let ?a = "example_db\<lparr>tb_entity_registry := registry_no_sentinel_column\<rparr>"
  let ?b = "example_db\<lparr>tb_entity_registry := registry_quoted_name\<rparr>"
  have a: "map_sum id fst (fraiseql_refresh_nodes_view_fast ?a)
           = Inl (elog ''failed to refresh v_nodes view'')"
    by code_simp
  have b: "map_sum id fst (fraiseql_refresh_nodes_view_fast ?b)
           = Inl (elog ''failed to refresh v_nodes view'')"
    by code_simp
  have a': "fraiseql_refresh_nodes_view_fast ?a = Inl (elog ''failed to refresh v_nodes view'')"
    using a by (cases "fraiseql_refresh_nodes_view_fast ?a") simp_all
  have b': "fraiseql_refresh_nodes_view_fast ?b = Inl (elog ''failed to refresh v_nodes view'')"
    using b by (cases "fraiseql_refresh_nodes_view_fast ?b") simp_all
  have d: "map soft_delete_column (node_entities ?a) = [None]" by code_simp
  have r: "map nr_id (unified_rows_spec ?a) = [Some (UuidD uuid_A1)]" by code_simp
  have t: "map graphql_type (node_entities ?b) = [''Alpha's'']" by code_simp
  from d r a' t b' show ?thesis by (intro conjI)
qed

text \<open>
  C6 (amended). For every registry snapshot whose descriptors can stand in the statement as
  they are (the primary key, the backing collection and the soft-delete column are
  identifiers; the type name, the entity name and the source table have no quote) and
  whose backing collections exist with the columns named, the soft-delete column being
  \<open>deleted_at\<close> when the descriptor configures none: the \<open>CREATE OR REPLACE VIEW\<close>
  statement that the rebuild builds from the registry is accepted, and the view it defines
  contains exactly the rows of each registered backing collection whose soft-delete field
  is NULL, projected to the common row shape, in registry order. A rebuild that returns,
  returns \<open>true\<close> with this view installed; the only error that can leave such a rebuild
  is one raised by a \<open>CREATE INDEX\<close> statement (the subject of C9).
\<close>

theorem unified_view_definition:
  assumes "SPI_connect db = SPI_OK_CONNECT"
    and "\<forall>r \<in> set (node_entities db).
           safe_branch (branch_of r) \<and> branch_ok (relations db) (branch_of r)"
  shows "SPI_execute db (view_sql_of (registry_query db))
           = Inr (SPI_OK_UTILITY, [], db\<lparr>v_nodes := Some (map branch_of (node_entities db))\<rparr>)
       \<and> v_nodes_rows (db\<lparr>v_nodes := Some (map branch_of (node_entities db))\<rparr>)
           = Some (unified_rows_spec db)
       \<and> (case fraiseql_refresh_nodes_view_fast db of
             Inr (ok, db') \<Rightarrow>
               ok \<and> db' = db\<lparr>v_nodes := Some (map branch_of (node_entities db))\<rparr>
           | Inl e \<Rightarrow>
               node_entities db \<noteq> []
               \<and> (create_index_result db ''CREATE INDEX idx_v_nodes_id ON core.v_nodes(id)''
                      = Inl e
                    \<or> create_index_result db ''CREATE INDEX idx_v_nodes_typename ON core.v_nodes(__typename)''
                      = Inl e
                    \<or> create_index_result db ''CREATE INDEX idx_v_nodes_entity_name ON core.v_nodes(entity_name)''
                      = Inl e))"
proof -
  have 1: "SPI_execute db (view_sql_of (registry_query db))
           = Inr (SPI_OK_UTILITY, [], db\<lparr>v_nodes := Some (map branch_of (node_entities db))\<rparr>)"
    unfolding view_statement_unfold view_installs_branches[OF assms(2)] by simp
  have 3: "(case fraiseql_refresh_nodes_view_fast db of
             Inr (ok, db') \<Rightarrow>
               ok \<and> db' = db\<lparr>v_nodes := Some (map branch_of (node_entities db))\<rparr>
           | Inl e \<Rightarrow>
               node_entities db \<noteq> []
               \<and> (create_index_result db ''CREATE INDEX idx_v_nodes_id ON core.v_nodes(id)''
                      = Inl e
                    \<or> create_index_result db ''CREATE INDEX idx_v_nodes_typename ON core.v_nodes(__typename)''
                      = Inl e
                    \<or> create_index_result db ''CREATE INDEX idx_v_nodes_entity_name ON core.v_nodes(entity_name)''
                      = Inl e))"
    unfolding refresh_installs_branches[OF assms]
    by (simp split: sum.splits)
  from 1 view_rows_spec[of db] 3 show ?thesis by (intro conjI)
qed

theorem unified_view_definition_witness:
  "SPI_connect example_db = SPI_OK_CONNECT
   \<and> map soft_delete_column (node_entities example_db) = [Some ''removed_at'', None]
   \<and> SPI_execute example_db (view_sql_of (registry_query example_db))
       = Inr (SPI_OK_UTILITY, [], example_db\<lparr>v_nodes := Some example_view\<rparr>)
   \<and> map_option (map nr_id) (v_nodes_rows (example_db\<lparr>v_nodes := Some example_view\<rparr>))
       = Some [Some (UuidD uuid_A1), Some (UuidD uuid_B1)]
   \<and> fraiseql_refresh_nodes_view_fast
         (example_db\<lparr>create_index_result := (\<lambda>src. Inr SPI_OK_UTILITY)\<rparr>)
       = Inr (True, example_db\<lparr>create_index_result := (\<lambda>src. Inr SPI_OK_UTILITY),
                                 v_nodes := Some example_view\<rparr>)"
proof -
  let ?db = "example_db\<lparr>create_index_result := (\<lambda>src. Inr SPI_OK_UTILITY)\<rparr>"
  have c: "SPI_connect example_db = SPI_OK_CONNECT" by (simp add: example_db_def)
  have c': "SPI_connect ?db = SPI_OK_CONNECT" by (simp add: example_db_def)
  note h = example_descriptors(1)
  note v = example_descriptors(2)
  have n: "node_entities ?db = node_entities example_db" by (simp add: node_entities_def)
  have h': "\<forall>r \<in> set (node_entities ?db).
              safe_branch (branch_of r) \<and> branch_ok (relations ?db) (branch_of r)"
    unfolding n using h by simp
  have d: "map soft_delete_column (node_entities example_db) = [Some ''removed_at'', None]"
    by code_simp
  have s: "map nr_id (unified_rows_spec example_db) = [Some (UuidD uuid_A1), Some (UuidD uuid_B1)]"
    by code_simp
  have r: "fraiseql_refresh_nodes_view_fast ?db
           = Inr (True, example_db\<lparr>create_index_result := (\<lambda>src. Inr SPI_OK_UTILITY),
                                     v_nodes := Some example_view\<rparr>)"
    using unified_view_definition[OF c' h'] unfolding n v
    by (cases "fraiseql_refresh_nodes_view_fast ?db") auto
  from unified_view_definition[OF c h] c d s r show ?thesis unfolding v by simp
qed

text \<open>
  C7. When the registry has no descriptor (no row with a node view table), the rebuild
  succeeds and installs the typed empty view: a relation of the common row shape with no
  row. The statement it sends gives the view the columns \<open>id\<close>, \<open>__typename\<close>,
  \<open>entity_name\<close>, \<open>source_table\<close>, \<open>data\<close>, \<open>created_at\<close>, \<open>updated_at\<close>, the names and the
  order that the statement built for a non-empty registry gives it. Resolving any UUID
  against the empty view, where a set of rows is accepted, returns no row (not found) as
  a normal result, not an error.
\<close>

theorem empty_registry_view:
  assumes "SPI_connect db = SPI_OK_CONNECT"
    and "\<forall>r \<in> set (tb_entity_registry db). v_table r = None"
    and "rsinfo_is_ReturnSetInfo fc" and "allowedModes_SFRM_Materialize fc"
    and "get_call_result_type fc = TYPEFUNC_COMPOSITE"
    and "node_entities other \<noteq> []"
    and "\<forall>r \<in> set (node_entities other). safe_branch (branch_of r)"
  shows "fraiseql_refresh_nodes_view_fast db = Inr (True, db\<lparr>v_nodes := Some []\<rparr>)
       \<and> v_nodes_rows (db\<lparr>v_nodes := Some []\<rparr>) = Some []
       \<and> view_columns (view_sql_of (registry_query db))
           = Some [''id'', ''__typename'', ''entity_name'', ''source_table'', ''data'',
                   ''created_at'', ''updated_at'']
       \<and> view_columns (view_sql_of (registry_query other))
           = view_columns (view_sql_of (registry_query db))
       \<and> fraiseql_resolve_node_fast fc (db\<lparr>v_nodes := Some []\<rparr>) (Some node_id) = Inr (Some [])"
proof -
  have q: "registry_query db = []" by (rule registry_query_empty[OF assms(2)])
  have r: "fraiseql_refresh_nodes_view_fast db = Inr (True, db\<lparr>v_nodes := Some []\<rparr>)"
    unfolding refresh_unfold q using assms(1) by (simp add: exec_create_view_def)
  have v: "v_nodes_rows (db\<lparr>v_nodes := Some []\<rparr>) = Some []"
    by (simp add: v_nodes_rows_def)
  have c: "SPI_connect (db\<lparr>v_nodes := Some []\<rparr>) = SPI_OK_CONNECT" using assms(1) by simp
  have e: "view_columns (view_sql_of (registry_query db))
           = Some [''id'', ''__typename'', ''entity_name'', ''source_table'', ''data'',
                   ''created_at'', ''updated_at'']"
    unfolding q by (rule view_columns_empty)
  from r v e view_columns_branches[OF assms(6,7)] resolve_node_empty_view[OF assms(3-5) c v]
  show ?thesis by simp
qed

theorem empty_registry_view_witness:
  "SPI_connect (example_db\<lparr>tb_entity_registry := []\<rparr>) = SPI_OK_CONNECT
   \<and> node_entities example_db \<noteq> []
   \<and> fraiseql_refresh_nodes_view_fast (example_db\<lparr>tb_entity_registry := []\<rparr>)
       = Inr (True, example_db\<lparr>tb_entity_registry := [], v_nodes := Some []\<rparr>)
   \<and> v_nodes_rows (example_db\<lparr>tb_entity_registry := [], v_nodes := Some []\<rparr>) = Some []
   \<and> view_columns (view_sql_of (registry_query example_db))
       = view_columns (view_sql_of (registry_query (example_db\<lparr>tb_entity_registry := []\<rparr>)))
   \<and> fraiseql_resolve_node_fast set_call
        (example_db\<lparr>tb_entity_registry := [], v_nodes := Some []\<rparr>) (Some uuid_A1)
       = Inr (Some [])"
proof -
  let ?db = "example_db\<lparr>tb_entity_registry := []\<rparr>"
  have c: "SPI_connect ?db = SPI_OK_CONNECT" by (simp add: example_db_def)
  have e: "\<forall>r \<in> set (tb_entity_registry ?db). v_table r = None" by simp
  have f: "rsinfo_is_ReturnSetInfo set_call" "allowedModes_SFRM_Materialize set_call"
    "get_call_result_type set_call = TYPEFUNC_COMPOSITE"
    by (simp_all add: set_call_def)
  have n: "node_entities example_db \<noteq> []" by code_simp
  have s: "\<forall>r \<in> set (node_entities example_db). safe_branch (branch_of r)"
    using example_descriptors(1) by blast
  from empty_registry_view[OF c e f n s, of uuid_A1] c n show ?thesis by simp
qed

text \<open>
  C9. The claim is that a failure of an index statement of the rebuild is swallowed: the
  rebuild still reports success and no index error reaches the caller. Evaluated on the
  code: the function drops the code an index statement returns, but it has no \<open>PG_TRY\<close>
  block, so an error that an index statement raises leaves the function. In \<open>example_db\<close>
  the view statement is accepted, \<open>CREATE INDEX\<close> on the view raises, and the rebuild ends
  with that error instead of \<open>true\<close>. Only a failure that the engine reports as a returned
  code is swallowed.
\<close>

theorem index_error_propagates:
  "SPI_execute example_db (view_sql_of (registry_query example_db))
     = Inr (SPI_OK_UTILITY, [], example_db\<lparr>v_nodes := Some example_view\<rparr>)
   \<and> SPI_execute (example_db\<lparr>v_nodes := Some example_view\<rparr>)
         ''CREATE INDEX idx_v_nodes_id ON core.v_nodes(id)''
     = Inl (ereport ERRCODE_WRONG_OBJECT_TYPE
              (''cannot create index on relation '' @ [CHR 0x22] @ ''v_nodes'' @ [CHR 0x22]))
   \<and> fraiseql_refresh_nodes_view_fast example_db
     = Inl (ereport ERRCODE_WRONG_OBJECT_TYPE
              (''cannot create index on relation '' @ [CHR 0x22] @ ''v_nodes'' @ [CHR 0x22]))
   \<and> fraiseql_refresh_nodes_view_fast
         (example_db\<lparr>create_index_result := (\<lambda>src. Inr SPI_ERROR_ARGUMENT)\<rparr>)
     = Inr (True, example_db\<lparr>create_index_result := (\<lambda>src. Inr SPI_ERROR_ARGUMENT),
                               v_nodes := Some example_view\<rparr>)"
proof -
  let ?db = "example_db\<lparr>create_index_result := (\<lambda>src. Inr SPI_ERROR_ARGUMENT)\<rparr>"
  have c: "SPI_connect example_db = SPI_OK_CONNECT" by (simp add: example_db_def)
  have c': "SPI_connect ?db = SPI_OK_CONNECT" by (simp add: example_db_def)
  have n: "node_entities ?db = node_entities example_db" by (simp add: node_entities_def)
  have h': "\<forall>r \<in> set (node_entities ?db).
              safe_branch (branch_of r) \<and> branch_ok (relations ?db) (branch_of r)"
    unfolding n using example_descriptors(1) by simp
  have e: "node_entities example_db \<noteq> []" by code_simp
  have 1: "SPI_execute example_db (view_sql_of (registry_query example_db))
           = Inr (SPI_OK_UTILITY, [], example_db\<lparr>v_nodes := Some example_view\<rparr>)"
    unfolding view_statement_unfold view_installs_branches[OF example_descriptors(1)]
      example_descriptors(2)
    by simp
  have 2: "SPI_execute (example_db\<lparr>v_nodes := Some example_view\<rparr>)
             ''CREATE INDEX idx_v_nodes_id ON core.v_nodes(id)''
           = Inl (ereport ERRCODE_WRONG_OBJECT_TYPE
                    (''cannot create index on relation '' @ [CHR 0x22] @ ''v_nodes'' @ [CHR 0x22]))"
    by (simp add: SPI_execute_def example_db_def)
  have 3: "fraiseql_refresh_nodes_view_fast example_db
           = Inl (ereport ERRCODE_WRONG_OBJECT_TYPE
                    (''cannot create index on relation '' @ [CHR 0x22] @ ''v_nodes'' @ [CHR 0x22]))"
    unfolding refresh_installs_branches[OF c example_descriptors(1)] using e
    by (simp add: example_db_def)
  have 4: "fraiseql_refresh_nodes_view_fast ?db
           = Inr (True, example_db\<lparr>create_index_result := (\<lambda>src. Inr SPI_ERROR_ARGUMENT),
                                     v_nodes := Some example_view\<rparr>)"
    unfolding refresh_installs_branches[OF c' h'] n example_descriptors(2) using e
    by simp
  from 1 2 3 4 show ?thesis by (intro conjI)
qed

end
